theory Spec2Isabelle
  imports Main "HOL-Library.Word" "HOL-Library.Sublist"
begin

unbundle bit_operations_syntax

section \<open>JavaScript strings\<close>

text \<open>
  A JavaScript string is a sequence of 16-bit code units.  The literals of the source are
  ASCII and are written through \<open>js\<close>; a code unit outside ASCII is written as a number.
\<close>

type_synonym jschar = "16 word"
type_synonym jsstring = "jschar list"
type_synonym byte = "8 word"

definition jc :: "char \<Rightarrow> jschar" where
  "jc c = of_nat (of_char c)"

definition js :: "string \<Rightarrow> jsstring" where
  "js s = map jc s"

text \<open>The exceptions the modelled code can raise, as values.\<close>

datatype jsfault =
    TypeError
  | URIError
  | SyntaxError
  | InvalidCharacterError
  | DataError
  | Error jsstring

section \<open>Access policy (config/allowed-users)\<close>

definition ALLOWED_USERNAMES :: "jsstring list" where
  "ALLOWED_USERNAMES = [js ''leonnwankwo'', js ''leonchike'']"

text \<open>
  A \<open>Set<string>\<close> is modelled by the list handed to its constructor: \<open>size\<close> counts the
  distinct elements and \<open>has\<close> is equality of code-unit sequences.
\<close>

definition Set_size :: "jsstring list \<Rightarrow> nat" where
  "Set_size xs = length (remdups xs)"

definition Set_has :: "jsstring list \<Rightarrow> jsstring \<Rightarrow> bool" where
  "Set_has xs x = (x \<in> set xs)"

text \<open>\<open>checkUserIsAllowed\<close> with the module constant taken as a parameter.\<close>

definition checkUserIsAllowedWith :: "jsstring list \<Rightarrow> jsstring \<Rightarrow> bool" where
  "checkUserIsAllowedWith allowed username =
     (if Set_size allowed = 0 then True else Set_has allowed username)"

definition checkUserIsAllowed :: "jsstring \<Rightarrow> bool" where
  "checkUserIsAllowed username = checkUserIsAllowedWith ALLOWED_USERNAMES username"

section \<open>Character classes and string primitives of the language\<close>

text \<open>
  \<open>WhiteSpace\<close> and \<open>LineTerminator\<close> of ECMAScript; \<open>trim\<close> and \<open>parseInt\<close> strip both, and the
  regular-expression atom \<open>.\<close> (without the \<open>s\<close> flag) matches every code unit that is not a
  line terminator.
\<close>

definition is_LineTerminator :: "jschar \<Rightarrow> bool" where
  "is_LineTerminator c = (c = 0x0A \<or> c = 0x0D \<or> c = 0x2028 \<or> c = 0x2029)"

definition is_WhiteSpace :: "jschar \<Rightarrow> bool" where
  "is_WhiteSpace c =
     (c = 0x09 \<or> c = 0x0B \<or> c = 0x0C \<or> c = 0x20 \<or> c = 0xA0 \<or> c = 0x1680
      \<or> (0x2000 \<le> c \<and> c \<le> 0x200A) \<or> c = 0x202F \<or> c = 0x205F \<or> c = 0x3000 \<or> c = 0xFEFF)"

definition is_StrWhiteSpaceChar :: "jschar \<Rightarrow> bool" where
  "is_StrWhiteSpaceChar c = (is_WhiteSpace c \<or> is_LineTerminator c)"

definition trim :: "jsstring \<Rightarrow> jsstring" where
  "trim s = rev (dropWhile is_StrWhiteSpaceChar (rev (dropWhile is_StrWhiteSpaceChar s)))"

text \<open>\<open>s.split(sep)\<close> for a separator of one code unit: the pieces between the separators.\<close>

fun split_on :: "jschar \<Rightarrow> jsstring \<Rightarrow> jsstring list" where
  "split_on sep [] = [[]]"
| "split_on sep (c # cs) =
     (if c = sep then [] # split_on sep cs
      else (case split_on sep cs of
              [] \<Rightarrow> [[c]]
            | p # ps \<Rightarrow> (c # p) # ps))"

text \<open>\<open>n.toString(16)\<close> for a natural number and \<open>s.padStart(n, c)\<close> for a one-unit filler.\<close>

definition hex_digit :: "nat \<Rightarrow> jschar" where
  "hex_digit d = (if d < 10 then 0x30 + of_nat d else 0x57 + of_nat d)"

fun toString16 :: "nat \<Rightarrow> jsstring" where
  "toString16 n = (if n < 16 then [hex_digit n] else toString16 (n div 16) @ [hex_digit (n mod 16)])"

declare toString16.simps [simp del]

definition padStart :: "nat \<Rightarrow> jschar \<Rightarrow> jsstring \<Rightarrow> jsstring" where
  "padStart n c s = replicate (n - length s) c @ s"

text \<open>
  \<open>parseInt(s, 16)\<close>: leading white space is skipped, then an optional sign, then an optional
  \<open>0x\<close> or \<open>0X\<close>, then the longest run of hexadecimal digits of either case; what follows is
  ignored.  No digit gives \<open>NaN\<close>, here \<open>None\<close>.  (The value is exact below \<open>2^53\<close>; the source
  applies it to pieces of at most two code units.)
\<close>

definition digit_value16 :: "jschar \<Rightarrow> nat option" where
  "digit_value16 c =
     (if 0x30 \<le> c \<and> c \<le> 0x39 then Some (unat c - 0x30)
      else if 0x61 \<le> c \<and> c \<le> 0x66 then Some (unat c - 0x61 + 10)
      else if 0x41 \<le> c \<and> c \<le> 0x46 then Some (unat c - 0x41 + 10)
      else None)"

definition strip_sign :: "jsstring \<Rightarrow> bool \<times> jsstring" where
  "strip_sign s =
     (case s of
        [] \<Rightarrow> (False, [])
      | c # r \<Rightarrow> if c = 0x2D then (True, r) else if c = 0x2B then (False, r) else (False, s))"

definition strip_0x :: "jsstring \<Rightarrow> jsstring" where
  "strip_0x s =
     (case s of
        a # b # r \<Rightarrow> if a = 0x30 \<and> (b = 0x78 \<or> b = 0x58) then r else s
      | _ \<Rightarrow> s)"

definition parseInt16 :: "jsstring \<Rightarrow> int option" where
  "parseInt16 s =
     (let (neg, s2) = strip_sign (dropWhile is_StrWhiteSpaceChar s);
          ds = List.map_filter digit_value16
                 (takeWhile (\<lambda>c. digit_value16 c \<noteq> None) (strip_0x s2))
      in if ds = [] then None
         else Some ((if neg then - 1 else 1) * foldl (\<lambda>acc d. 16 * acc + int d) 0 ds))"

text \<open>Storing a number into a \<open>Uint8Array\<close>: \<open>NaN\<close> becomes 0, an integer its residue mod 256.\<close>

definition ToUint8 :: "int option \<Rightarrow> byte" where
  "ToUint8 v = (case v of None \<Rightarrow> 0 | Some n \<Rightarrow> of_int n)"

text \<open>
  \<open>s.match(/.{1,2}/g)\<close>: scanning from the left, a match starts at the first code unit that is
  not a line terminator and takes the next one too unless that is a line terminator or the
  end; the result is \<open>null\<close> (here \<open>None\<close>) when there is no match at all.
\<close>

fun match_chunks :: "jsstring \<Rightarrow> jsstring list" where
  "match_chunks [] = []"
| "match_chunks [a] = (if is_LineTerminator a then [] else [[a]])"
| "match_chunks (a # b # cs) =
     (if is_LineTerminator a then match_chunks (b # cs)
      else if is_LineTerminator b then [a] # match_chunks cs
      else [a, b] # match_chunks cs)"

definition match_dot_1_2 :: "jsstring \<Rightarrow> jsstring list option" where
  "match_dot_1_2 s = (case match_chunks s of [] \<Rightarrow> None | c # cs \<Rightarrow> Some (c # cs))"

section \<open>\<open>TextEncoder\<close>: UTF-8 of a string\<close>

text \<open>
  \<open>enc.encode(s)\<close> reads the code units as UTF-16, a surrogate without its partner as U+FFFD,
  and writes each code point in UTF-8.
\<close>

definition is_high_surrogate :: "jschar \<Rightarrow> bool" where
  "is_high_surrogate c = (0xD800 \<le> c \<and> c \<le> 0xDBFF)"

definition is_low_surrogate :: "jschar \<Rightarrow> bool" where
  "is_low_surrogate c = (0xDC00 \<le> c \<and> c \<le> 0xDFFF)"

definition scalar_of_unit :: "jschar \<Rightarrow> int" where
  "scalar_of_unit c = (if is_high_surrogate c \<or> is_low_surrogate c then 0xFFFD else uint c)"

fun code_points :: "jsstring \<Rightarrow> int list" where
  "code_points [] = []"
| "code_points [c] = [scalar_of_unit c]"
| "code_points (c # d # cs) =
     (if is_high_surrogate c \<and> is_low_surrogate d
      then (0x10000 + (uint c - 0xD800) * 0x400 + (uint d - 0xDC00)) # code_points cs
      else scalar_of_unit c # code_points (d # cs))"

definition utf8_of_code_point :: "int \<Rightarrow> byte list" where
  "utf8_of_code_point cp =
     (if cp < 0x80 then [of_int cp]
      else if cp < 0x800 then [of_int (0xC0 + cp div 64), of_int (0x80 + cp mod 64)]
      else if cp < 0x10000 then
        [of_int (0xE0 + cp div 4096), of_int (0x80 + cp div 64 mod 64), of_int (0x80 + cp mod 64)]
      else
        [of_int (0xF0 + cp div 262144), of_int (0x80 + cp div 4096 mod 64),
         of_int (0x80 + cp div 64 mod 64), of_int (0x80 + cp mod 64)])"

definition TextEncoder_encode :: "jsstring \<Rightarrow> byte list" where
  "TextEncoder_encode s = concat (map utf8_of_code_point (code_points s))"

section \<open>Web Crypto: HMAC with SHA-256\<close>

text \<open>
  The source signs and verifies with \<open>crypto.subtle\<close> under the algorithm
  \<open>{name: HMAC, hash: SHA-256}\<close>.  The platform's functions are written out here as their
  standards define them: SHA-256 after FIPS 180-4, HMAC after FIPS 198-1 with the block size
  of 64 bytes.
\<close>

type_synonym word32_t = "32 word"

definition rotr :: "nat \<Rightarrow> word32_t \<Rightarrow> word32_t" where
  "rotr n x = (drop_bit n x) OR (push_bit (32 - n) x)"

definition Ch :: "word32_t \<Rightarrow> word32_t \<Rightarrow> word32_t \<Rightarrow> word32_t" where
  "Ch x y z = (x AND y) XOR (NOT x AND z)"

definition Maj :: "word32_t \<Rightarrow> word32_t \<Rightarrow> word32_t \<Rightarrow> word32_t" where
  "Maj x y z = (x AND y) XOR (x AND z) XOR (y AND z)"

definition Sigma0 :: "word32_t \<Rightarrow> word32_t" where
  "Sigma0 x = rotr 2 x XOR rotr 13 x XOR rotr 22 x"

definition Sigma1 :: "word32_t \<Rightarrow> word32_t" where
  "Sigma1 x = rotr 6 x XOR rotr 11 x XOR rotr 25 x"

definition sigma0 :: "word32_t \<Rightarrow> word32_t" where
  "sigma0 x = rotr 7 x XOR rotr 18 x XOR drop_bit 3 x"

definition sigma1 :: "word32_t \<Rightarrow> word32_t" where
  "sigma1 x = rotr 17 x XOR rotr 19 x XOR drop_bit 10 x"

definition sha256_K :: "word32_t list" where
  "sha256_K =
    [0x428A2F98, 0x71374491, 0xB5C0FBCF, 0xE9B5DBA5, 0x3956C25B, 0x59F111F1, 0x923F82A4, 0xAB1C5ED5,
     0xD807AA98, 0x12835B01, 0x243185BE, 0x550C7DC3, 0x72BE5D74, 0x80DEB1FE, 0x9BDC06A7, 0xC19BF174,
     0xE49B69C1, 0xEFBE4786, 0x0FC19DC6, 0x240CA1CC, 0x2DE92C6F, 0x4A7484AA, 0x5CB0A9DC, 0x76F988DA,
     0x983E5152, 0xA831C66D, 0xB00327C8, 0xBF597FC7, 0xC6E00BF3, 0xD5A79147, 0x06CA6351, 0x14292967,
     0x27B70A85, 0x2E1B2138, 0x4D2C6DFC, 0x53380D13, 0x650A7354, 0x766A0ABB, 0x81C2C92E, 0x92722C85,
     0xA2BFE8A1, 0xA81A664B, 0xC24B8B70, 0xC76C51A3, 0xD192E819, 0xD6990624, 0xF40E3585, 0x106AA070,
     0x19A4C116, 0x1E376C08, 0x2748774C, 0x34B0BCB5, 0x391C0CB3, 0x4ED8AA4A, 0x5B9CCA4F, 0x682E6FF3,
     0x748F82EE, 0x78A5636F, 0x84C87814, 0x8CC70208, 0x90BEFFFA, 0xA4506CEB, 0xBEF9A3F7, 0xC67178F2]"

type_synonym sha256_state = "word32_t \<times> word32_t \<times> word32_t \<times> word32_t \<times> word32_t \<times> word32_t \<times> word32_t \<times> word32_t"

definition sha256_H0 :: sha256_state where
  "sha256_H0 = (0x6A09E667, 0xBB67AE85, 0x3C6EF372, 0xA54FF53A,
                0x510E527F, 0x9B05688C, 0x1F83D9AB, 0x5BE0CD19)"

definition be32 :: "byte list \<Rightarrow> word32_t" where
  "be32 bs = foldl (\<lambda>acc b. push_bit 8 acc OR ucast b) 0 bs"

fun words_of :: "byte list \<Rightarrow> word32_t list" where
  "words_of (a # b # c # d # rest) = be32 [a, b, c, d] # words_of rest"
| "words_of _ = []"

fun schedule :: "nat \<Rightarrow> word32_t list \<Rightarrow> word32_t list" where
  "schedule 0 w = w"
| "schedule (Suc n) w =
     (let t = length w in
      schedule n (w @ [sigma1 (w ! (t - 2)) + w ! (t - 7) + sigma0 (w ! (t - 15)) + w ! (t - 16)]))"

definition round256 :: "sha256_state \<Rightarrow> word32_t \<times> word32_t \<Rightarrow> sha256_state" where
  "round256 s kw =
     (case s of (a, b, c, d, e, f, g, h) \<Rightarrow>
        (let t1 = h + Sigma1 e + Ch e f g + fst kw + snd kw;
             t2 = Sigma0 a + Maj a b c
         in (t1 + t2, a, b, c, d + t1, e, f, g)))"

definition add8 :: "sha256_state \<Rightarrow> sha256_state \<Rightarrow> sha256_state" where
  "add8 s t =
     (case s of (a, b, c, d, e, f, g, h) \<Rightarrow>
      case t of (a', b', c', d', e', f', g', h') \<Rightarrow>
        (a + a', b + b', c + c', d + d', e + e', f + f', g + g', h + h'))"

definition compress :: "sha256_state \<Rightarrow> byte list \<Rightarrow> sha256_state" where
  "compress hv block = add8 hv (foldl round256 hv (zip sha256_K (schedule 48 (words_of block))))"

fun blocks64 :: "byte list \<Rightarrow> byte list list" where
  "blocks64 bs = (if bs = [] then [] else take 64 bs # blocks64 (drop 64 bs))"

declare blocks64.simps [simp del]

definition bytes_of_w64 :: "64 word \<Rightarrow> byte list" where
  "bytes_of_w64 w = [ucast (drop_bit 56 w), ucast (drop_bit 48 w), ucast (drop_bit 40 w),
     ucast (drop_bit 32 w), ucast (drop_bit 24 w), ucast (drop_bit 16 w), ucast (drop_bit 8 w), ucast w]"

definition sha256_pad :: "byte list \<Rightarrow> byte list" where
  "sha256_pad m =
     m @ [0x80] @ replicate ((119 - length m mod 64) mod 64) 0 @ bytes_of_w64 (of_nat (8 * length m))"

definition bytes_of_word32 :: "word32_t \<Rightarrow> byte list" where
  "bytes_of_word32 w = [ucast (drop_bit 24 w), ucast (drop_bit 16 w), ucast (drop_bit 8 w), ucast w]"

definition sha256 :: "byte list \<Rightarrow> byte list" where
  "sha256 m =
     (case foldl compress sha256_H0 (blocks64 (sha256_pad m)) of
        (a, b, c, d, e, f, g, h) \<Rightarrow> concat (map bytes_of_word32 [a, b, c, d, e, f, g, h]))"


text \<open>
  HMAC: a key longer than a block is hashed first; the key is then padded with zero bytes to
  the block size.
\<close>

definition hmac_key_block :: "byte list \<Rightarrow> byte list" where
  "hmac_key_block k =
     (let k0 = (if length k > 64 then sha256 k else k) in k0 @ replicate (64 - length k0) 0)"

definition hmac_sha256 :: "byte list \<Rightarrow> byte list \<Rightarrow> byte list" where
  "hmac_sha256 k text =
     (let kb = hmac_key_block k
      in sha256 (map (\<lambda>b. b XOR 0x5C) kb @ sha256 (map (\<lambda>b. b XOR 0x36) kb @ text)))"

text \<open>
  A \<open>CryptoKey\<close> for HMAC with SHA-256 holds the raw key bytes.  \<open>importKey\<close> of raw HMAC key
  data rejects empty data with a \<open>DataError\<close> (Web Cryptography API, HMAC, import key).
\<close>

datatype CryptoKey = HmacSha256Key "byte list"

definition subtle_importKey_raw_HMAC :: "byte list \<Rightarrow> jsfault + CryptoKey" where
  "subtle_importKey_raw_HMAC keyData =
     (if keyData = [] then Inl DataError else Inr (HmacSha256Key keyData))"

definition subtle_sign_HMAC :: "CryptoKey \<Rightarrow> byte list \<Rightarrow> byte list" where
  "subtle_sign_HMAC key data = (case key of HmacSha256Key k \<Rightarrow> hmac_sha256 k data)"

definition subtle_verify_HMAC :: "CryptoKey \<Rightarrow> byte list \<Rightarrow> byte list \<Rightarrow> bool" where
  "subtle_verify_HMAC key signature data = (subtle_sign_HMAC key data = signature)"

section \<open>Signing utility (auth/oauth-utils)\<close>

definition getSigningKey :: "jsstring \<Rightarrow> jsfault + CryptoKey" where
  "getSigningKey encryptionKey = subtle_importKey_raw_HMAC (TextEncoder_encode encryptionKey)"

text \<open>The arrow function of \<open>signData\<close>: \<open>b.toString(16).padStart(2, "0")\<close>.\<close>

definition hex_of_byte :: "byte \<Rightarrow> jsstring" where
  "hex_of_byte b = padStart 2 0x30 (toString16 (unat b))"

definition signData :: "CryptoKey \<Rightarrow> jsstring \<Rightarrow> jsstring" where
  "signData key data =
     concat (map hex_of_byte (subtle_sign_HMAC key (TextEncoder_encode data)))"

text \<open>
  \<open>verifySignature\<close>: the non-null assertion on the result of \<open>match\<close> checks nothing at run
  time, so \<open>null.map\<close> raises a \<open>TypeError\<close>.
\<close>

definition verifySignature :: "CryptoKey \<Rightarrow> jsstring \<Rightarrow> jsstring \<Rightarrow> jsfault + bool" where
  "verifySignature key signatureHex data =
     (case match_dot_1_2 signatureHex of
        None \<Rightarrow> Inl TypeError
      | Some pieces \<Rightarrow>
          Inr (subtle_verify_HMAC key (map (\<lambda>byte. ToUint8 (parseInt16 byte)) pieces)
                 (TextEncoder_encode data)))"

text \<open>
  Signing and verifying under a secret string, as \<open>parseRedirectApproval\<close> and
  \<open>clientIdAlreadyApproved\<close> do it: the key is imported first, then used.
\<close>

definition sign_under_secret :: "jsstring \<Rightarrow> jsstring \<Rightarrow> jsfault + jsstring" where
  "sign_under_secret encryptionKey data =
     (case getSigningKey encryptionKey of
        Inl e \<Rightarrow> Inl e
      | Inr key \<Rightarrow> Inr (signData key data))"

definition verify_under_secret :: "jsstring \<Rightarrow> jsstring \<Rightarrow> jsstring \<Rightarrow> jsfault + bool" where
  "verify_under_secret encryptionKey signatureHex data =
     (case getSigningKey encryptionKey of
        Inl e \<Rightarrow> Inl e
      | Inr key \<Rightarrow> verifySignature key signatureHex data)"

section \<open>\<open>decodeURIComponent\<close>\<close>

text \<open>
  A percent sign must be followed by two hexadecimal digits.  An octet below \<open>0x80\<close> is the code
  unit itself; otherwise its leading one bits give the length of a UTF-8 sequence whose
  further octets are percent escapes too, and the sequence must be the UTF-8 form of a code
  point (continuation octets, no overlong form, no surrogate, at most \<open>0x10FFFF\<close>).  Anything
  else raises \<open>URIError\<close>.
\<close>

definition hex_pair :: "jschar \<Rightarrow> jschar \<Rightarrow> int option" where
  "hex_pair h l =
     (case (digit_value16 h, digit_value16 l) of
        (Some a, Some b) \<Rightarrow> Some (16 * int a + int b)
      | _ \<Rightarrow> None)"

fun pct_octets :: "nat \<Rightarrow> jsstring \<Rightarrow> int list option" where
  "pct_octets 0 s = Some []"
| "pct_octets (Suc n) (p # h # l # s) =
     (if p = 0x25 then
        (case hex_pair h l of
           None \<Rightarrow> None
         | Some b \<Rightarrow> (case pct_octets n s of None \<Rightarrow> None | Some bs \<Rightarrow> Some (b # bs)))
      else None)"
| "pct_octets (Suc n) s = None"

definition utf8_length :: "int \<Rightarrow> nat" where
  "utf8_length b =
     (if b < 0x80 then 0 else if b < 0xC0 then 1 else if b < 0xE0 then 2
      else if b < 0xF0 then 3 else if b < 0xF8 then 4 else 5)"

definition is_continuation :: "int \<Rightarrow> bool" where
  "is_continuation b = (0x80 \<le> b \<and> b < 0xC0)"

definition utf8_code_point :: "int \<Rightarrow> int list \<Rightarrow> int option" where
  "utf8_code_point b rest =
     (if \<not> list_all is_continuation rest then None
      else
        (let n = Suc (length rest);
             lead = (if n = 2 then b mod 32 else if n = 3 then b mod 16 else b mod 8);
             v = foldl (\<lambda>acc c. acc * 64 + c mod 64) lead rest;
             lowest = (if n = 2 then 0x80 else if n = 3 then 0x800 else 0x10000)
         in if v < lowest \<or> (0xD800 \<le> v \<and> v \<le> 0xDFFF) \<or> 0x10FFFF < v then None
            else Some v))"

definition utf16_of_code_point :: "int \<Rightarrow> jsstring" where
  "utf16_of_code_point v =
     (if v < 0x10000 then [of_int v]
      else [of_int (0xD800 + (v - 0x10000) div 0x400), of_int (0xDC00 + (v - 0x10000) mod 0x400)])"

fun decodeURIComponent :: "jsstring \<Rightarrow> jsfault + jsstring" where
  "decodeURIComponent [] = Inr []"
| "decodeURIComponent (c # cs) =
     (if c \<noteq> 0x25 then
        (case decodeURIComponent cs of Inl e \<Rightarrow> Inl e | Inr r \<Rightarrow> Inr (c # r))
      else
        (case cs of
           h # l # rest \<Rightarrow>
             (case hex_pair h l of
                None \<Rightarrow> Inl URIError
              | Some b \<Rightarrow>
                  (let n = utf8_length b in
                   if n = 0 then
                     (case decodeURIComponent rest of
                        Inl e \<Rightarrow> Inl e
                      | Inr r \<Rightarrow> Inr (of_int b # r))
                   else if n = 1 \<or> n > 4 then Inl URIError
                   else
                     (case pct_octets (n - 1) rest of
                        None \<Rightarrow> Inl URIError
                      | Some more \<Rightarrow>
                          (case utf8_code_point b more of
                             None \<Rightarrow> Inl URIError
                           | Some v \<Rightarrow>
                               (case decodeURIComponent (drop (3 * (n - 1)) rest) of
                                  Inl e \<Rightarrow> Inl e
                                | Inr r \<Rightarrow> Inr (utf16_of_code_point v @ r))))))
         | _ \<Rightarrow> Inl URIError))"

section \<open>Cookie store and approval memoizer (auth/oauth-utils)\<close>

text \<open>
  The cookie object is a map from names to values.  An assignment to the key \<open>__proto__\<close> of
  an object literal goes to the prototype setter, which ignores a string, so it stores
  nothing.  The first two pieces of a cookie split at \<open>=\<close> are its name and value; a piece
  that is missing (\<open>undefined\<close>) or empty is falsy.
\<close>

type_synonym cookies = "jsstring \<rightharpoonup> jsstring"

definition truthy_string :: "jsstring option \<Rightarrow> bool" where
  "truthy_string v = (case v of None \<Rightarrow> False | Some s \<Rightarrow> s \<noteq> [])"

definition parseCookie_step :: "cookies \<Rightarrow> jsstring \<Rightarrow> jsfault + cookies" where
  "parseCookie_step cookies cookie =
     (let parts = split_on 0x3D (trim cookie);
          name = (case parts of n # _ \<Rightarrow> Some n | _ \<Rightarrow> None);
          val = (case parts of _ # v # _ \<Rightarrow> Some v | _ \<Rightarrow> None)
      in if truthy_string name \<and> truthy_string val then
           (case decodeURIComponent (the val) of
              Inl e \<Rightarrow> Inl e
            | Inr decoded \<Rightarrow>
                if the name = js ''__proto__'' then Inr cookies
                else Inr (cookies(the name \<mapsto> decoded)))
         else Inr cookies)"

fun parseCookie_forEach :: "cookies \<Rightarrow> jsstring list \<Rightarrow> jsfault + cookies" where
  "parseCookie_forEach cookies [] = Inr cookies"
| "parseCookie_forEach cookies (cookie # rest) =
     (case parseCookie_step cookies cookie of
        Inl e \<Rightarrow> Inl e
      | Inr cookies' \<Rightarrow> parseCookie_forEach cookies' rest)"

definition parseCookieHeader :: "jsstring \<Rightarrow> jsfault + cookies" where
  "parseCookieHeader cookieHeader = parseCookie_forEach Map.empty (split_on 0x3B cookieHeader)"

definition approved_cookie_name :: "jsstring \<Rightarrow> jsstring" where
  "approved_cookie_name clientId = js ''client_'' @ clientId @ js ''_approved''"

definition signature_cookie_name :: "jsstring \<Rightarrow> jsstring" where
  "signature_cookie_name clientId = js ''client_'' @ clientId @ js ''_signature''"

text \<open>
  \<open>clientIdAlreadyApproved\<close>; of the request only the \<open>Cookie\<close> header is read, \<open>None\<close> when the
  request has none.
\<close>

definition clientIdAlreadyApproved ::
  "jsstring option \<Rightarrow> jsstring \<Rightarrow> jsstring \<Rightarrow> jsfault + bool" where
  "clientIdAlreadyApproved cookieHeader clientId encryptionKey =
     (if \<not> truthy_string cookieHeader then Inr False
      else
        (case parseCookieHeader (the cookieHeader) of
           Inl e \<Rightarrow> Inl e
         | Inr cookies \<Rightarrow>
             (let approvalCookie = cookies (approved_cookie_name clientId);
                  signatureCookie = cookies (signature_cookie_name clientId)
              in if \<not> truthy_string approvalCookie \<or> \<not> truthy_string signatureCookie
                 then Inr False
                 else
                   (case getSigningKey encryptionKey of
                      Inl e \<Rightarrow> Inl e
                    | Inr key \<Rightarrow>
                        (case verifySignature key (the signatureCookie) (the approvalCookie) of
                           Inl e \<Rightarrow> Inl e
                         | Inr isValid \<Rightarrow>
                             Inr (isValid \<and> the approvalCookie = js ''true''))))))"

section \<open>JSON values of the language\<close>

text \<open>
  A number read by \<open>JSON.parse\<close> is kept as the decimal it was written as: sign, digits and
  power of ten.  The language rounds it to a double; the only thing the modelled code asks
  of a number is whether it is zero, and a decimal rounds to zero exactly when it is at most
  \<open>2^-1075\<close> in magnitude.  How a number prints (\<open>Number::toString\<close> of the double) is a
  parameter \<open>nts\<close> of the functions that print.
\<close>

datatype jsnum = JsNum bool int int

datatype json =
    JNull
  | JBool bool
  | JNum jsnum
  | JStr jsstring
  | JArr "json list"
  | JObj "(jsstring \<times> json) list"

definition num_is_zero :: "jsnum \<Rightarrow> bool" where
  "num_is_zero n =
     (case n of JsNum neg m e \<Rightarrow>
        m = 0 \<or> (e < 0 \<and> m * 2 ^ 1075 \<le> 10 ^ nat (- e)))"

text \<open>\<open>ToBoolean\<close>; \<open>None\<close> is \<open>undefined\<close>.\<close>

definition truthy :: "json option \<Rightarrow> bool" where
  "truthy v =
     (case v of
        None \<Rightarrow> False
      | Some JNull \<Rightarrow> False
      | Some (JBool b) \<Rightarrow> b
      | Some (JNum n) \<Rightarrow> \<not> num_is_zero n
      | Some (JStr s) \<Rightarrow> s \<noteq> []
      | Some (JArr xs) \<Rightarrow> True
      | Some (JObj kvs) \<Rightarrow> True)"

text \<open>
  Reading a property whose name is an ordinary identifier (not an array index, not \<open>length\<close>,
  not a member of a built-in prototype: so it is for every name the source reads).  On
  \<open>null\<close> it raises; on an object it is the own property; on any other value \<open>undefined\<close>.
\<close>

definition js_get :: "json \<Rightarrow> jsstring \<Rightarrow> jsfault + json option" where
  "js_get v name =
     (case v of
        JNull \<Rightarrow> Inl TypeError
      | JObj kvs \<Rightarrow> Inr (map_of kvs name)
      | _ \<Rightarrow> Inr None)"

text \<open>
  The own properties of an object are kept in the order the language enumerates them: array
  indices first, ascending, then the other names as created.  Setting a name that exists
  replaces its value in place.
\<close>

definition is_digit :: "jschar \<Rightarrow> bool" where
  "is_digit c = (0x30 \<le> c \<and> c \<le> 0x39)"

definition digits_value :: "jsstring \<Rightarrow> int" where
  "digits_value ds = foldl (\<lambda>acc c. 10 * acc + (uint c - 0x30)) 0 ds"

definition array_index :: "jsstring \<Rightarrow> int option" where
  "array_index k =
     (if k = [] \<or> \<not> list_all is_digit k \<or> (hd k = 0x30 \<and> length k > 1) \<or> length k > 10 then None
      else if digits_value k < 4294967295 then Some (digits_value k) else None)"

fun insert_index :: "int \<Rightarrow> jsstring \<Rightarrow> json \<Rightarrow> (jsstring \<times> json) list \<Rightarrow> (jsstring \<times> json) list" where
  "insert_index i k v [] = [(k, v)]"
| "insert_index i k v ((k', v') # kvs) =
     (case array_index k' of
        None \<Rightarrow> (k, v) # (k', v') # kvs
      | Some j \<Rightarrow> if i < j then (k, v) # (k', v') # kvs else (k', v') # insert_index i k v kvs)"

definition obj_put :: "(jsstring \<times> json) list \<Rightarrow> jsstring \<Rightarrow> json \<Rightarrow> (jsstring \<times> json) list" where
  "obj_put kvs k v =
     (if k \<in> fst ` set kvs then map (\<lambda>(k', v'). if k' = k then (k', v) else (k', v')) kvs
      else (case array_index k of
              None \<Rightarrow> kvs @ [(k, v)]
            | Some i \<Rightarrow> insert_index i k v kvs))"

definition join_with :: "jsstring \<Rightarrow> jsstring list \<Rightarrow> jsstring" where
  "join_with sep xs = (case xs of [] \<Rightarrow> [] | y # ys \<Rightarrow> y @ concat (map (\<lambda>z. sep @ z) ys))"

text \<open>\<open>ToString\<close> of a value, as a template literal applies it; \<open>None\<close> is \<open>undefined\<close>.\<close>

fun js_to_string :: "(jsnum \<Rightarrow> jsstring) \<Rightarrow> json \<Rightarrow> jsstring"
  and js_elements_to_strings :: "(jsnum \<Rightarrow> jsstring) \<Rightarrow> json list \<Rightarrow> jsstring list" where
  "js_to_string nts JNull = js ''null''"
| "js_to_string nts (JBool b) = (if b then js ''true'' else js ''false'')"
| "js_to_string nts (JNum n) = nts n"
| "js_to_string nts (JStr s) = s"
| "js_to_string nts (JArr xs) = join_with (js '','') (js_elements_to_strings nts xs)"
| "js_to_string nts (JObj kvs) = js ''[object Object]''"
| "js_elements_to_strings nts [] = []"
| "js_elements_to_strings nts (x # xs) =
     (if x = JNull then [] else js_to_string nts x) # js_elements_to_strings nts xs"

definition js_to_string_opt :: "(jsnum \<Rightarrow> jsstring) \<Rightarrow> json option \<Rightarrow> jsstring" where
  "js_to_string_opt nts v = (case v of None \<Rightarrow> js ''undefined'' | Some x \<Rightarrow> js_to_string nts x)"

section \<open>\<open>JSON.stringify\<close>\<close>

definition hex4_of_unit :: "jschar \<Rightarrow> jsstring" where
  "hex4_of_unit c =
     [hex_digit (unat (drop_bit 12 c)), hex_digit (unat (drop_bit 8 c AND 0xF)),
      hex_digit (unat (drop_bit 4 c AND 0xF)), hex_digit (unat (c AND 0xF))]"

definition unicode_escape :: "jschar \<Rightarrow> jsstring" where
  "unicode_escape c = [0x5C, 0x75] @ hex4_of_unit c"

definition quote_unit :: "jschar \<Rightarrow> jsstring" where
  "quote_unit c =
     (if c = 0x08 then [0x5C, 0x62] else if c = 0x09 then [0x5C, 0x74] else if c = 0x0A then [0x5C, 0x6E]
      else if c = 0x0C then [0x5C, 0x66] else if c = 0x0D then [0x5C, 0x72]
      else if c = 0x22 then [0x5C, 0x22] else if c = 0x5C then [0x5C, 0x5C]
      else if c < 0x20 then unicode_escape c
      else [c])"

text \<open>A surrogate pair is written as it is, a surrogate on its own as an escape.\<close>

fun quote_units :: "jsstring \<Rightarrow> jsstring" where
  "quote_units [] = []"
| "quote_units [c] =
     (if is_high_surrogate c \<or> is_low_surrogate c then unicode_escape c else quote_unit c)"
| "quote_units (c # d # cs) =
     (if is_high_surrogate c \<and> is_low_surrogate d then c # d # quote_units cs
      else if is_high_surrogate c \<or> is_low_surrogate c then unicode_escape c @ quote_units (d # cs)
      else quote_unit c @ quote_units (d # cs))"

definition QuoteJSONString :: "jsstring \<Rightarrow> jsstring" where
  "QuoteJSONString s = [0x22] @ quote_units s @ [0x22]"

definition stringify_number :: "(jsnum \<Rightarrow> jsstring) \<Rightarrow> jsnum \<Rightarrow> jsstring" where
  "stringify_number nts n =
     (if nts n = js ''Infinity'' \<or> nts n = js ''-Infinity'' \<or> nts n = js ''NaN'' then js ''null''
      else nts n)"

fun JSON_stringify :: "(jsnum \<Rightarrow> jsstring) \<Rightarrow> json \<Rightarrow> jsstring"
  and stringify_elements :: "(jsnum \<Rightarrow> jsstring) \<Rightarrow> json list \<Rightarrow> jsstring list"
  and stringify_members :: "(jsnum \<Rightarrow> jsstring) \<Rightarrow> (jsstring \<times> json) list \<Rightarrow> jsstring list" where
  "JSON_stringify nts JNull = js ''null''"
| "JSON_stringify nts (JBool b) = (if b then js ''true'' else js ''false'')"
| "JSON_stringify nts (JNum n) = stringify_number nts n"
| "JSON_stringify nts (JStr s) = QuoteJSONString s"
| "JSON_stringify nts (JArr xs) = js ''['' @ join_with (js '','') (stringify_elements nts xs) @ js '']''"
| "JSON_stringify nts (JObj kvs) = js ''{'' @ join_with (js '','') (stringify_members nts kvs) @ js ''}''"
| "stringify_elements nts [] = []"
| "stringify_elements nts (x # xs) = JSON_stringify nts x # stringify_elements nts xs"
| "stringify_members nts [] = []"
| "stringify_members nts ((k, v) # kvs) =
     (QuoteJSONString k @ js '':'' @ JSON_stringify nts v) # stringify_members nts kvs"

section \<open>\<open>JSON.parse\<close>\<close>

text \<open>
  A recursive-descent reader of the JSON grammar.  \<open>None\<close> stands for the \<open>SyntaxError\<close>.  The
  three mutually recursive readers take a bound on the number of nested calls; \<open>JSON_parse\<close>
  starts them with a bound that the text cannot exhaust (\<open>parse_bound_enough\<close> below).
\<close>

definition is_json_ws :: "jschar \<Rightarrow> bool" where
  "is_json_ws c = (c = 0x20 \<or> c = 0x09 \<or> c = 0x0A \<or> c = 0x0D)"

definition skip_ws :: "jsstring \<Rightarrow> jsstring" where
  "skip_ws s = dropWhile is_json_ws s"

definition hex4 :: "jschar \<Rightarrow> jschar \<Rightarrow> jschar \<Rightarrow> jschar \<Rightarrow> jschar option" where
  "hex4 a b c d =
     (case (digit_value16 a, digit_value16 b, digit_value16 c, digit_value16 d) of
        (Some x, Some y, Some z, Some w) \<Rightarrow>
          Some (of_int (((int x * 16 + int y) * 16 + int z) * 16 + int w))
      | _ \<Rightarrow> None)"

definition simple_escape :: "jschar \<Rightarrow> jschar option" where
  "simple_escape e =
     (if e = 0x22 then Some 0x22 else if e = 0x5C then Some 0x5C else if e = 0x2F then Some 0x2F
      else if e = 0x62 then Some 0x08 else if e = 0x66 then Some 0x0C
      else if e = 0x6E then Some 0x0A else if e = 0x72 then Some 0x0D
      else if e = 0x74 then Some 0x09 else None)"

text \<open>The characters of a string after its opening quote, and what follows the closing one.\<close>

fun parse_string_body :: "jsstring \<Rightarrow> (jsstring \<times> jsstring) option" where
  "parse_string_body [] = None"
| "parse_string_body (c # cs) =
     (if c = 0x22 then Some ([], cs)
      else if c = 0x5C then
        (case cs of
           [] \<Rightarrow> None
         | e # r \<Rightarrow>
             if e = 0x75 then
               (case r of
                  h1 # h2 # h3 # h4 # r' \<Rightarrow>
                    (case hex4 h1 h2 h3 h4 of
                       None \<Rightarrow> None
                     | Some u \<Rightarrow>
                         (case parse_string_body r' of
                            None \<Rightarrow> None
                          | Some (str, rest) \<Rightarrow> Some (u # str, rest)))
                | _ \<Rightarrow> None)
             else
               (case simple_escape e of
                  None \<Rightarrow> None
                | Some u \<Rightarrow>
                    (case parse_string_body r of
                       None \<Rightarrow> None
                     | Some (str, rest) \<Rightarrow> Some (u # str, rest))))
      else if c < 0x20 then None
      else
        (case parse_string_body cs of
           None \<Rightarrow> None
         | Some (str, rest) \<Rightarrow> Some (c # str, rest)))"

text \<open>
  A number: an optional minus, \<open>0\<close> or a run of digits not starting with \<open>0\<close>, an optional
  fraction, an optional exponent.  A dot or an \<open>e\<close> that no digit follows is left unread, and
  the caller then fails on it.
\<close>

definition parse_fraction :: "jsstring \<Rightarrow> jsstring \<times> jsstring" where
  "parse_fraction s =
     (case s of
        p # q # r \<Rightarrow>
          if p = 0x2E \<and> is_digit q then (takeWhile is_digit (q # r), dropWhile is_digit (q # r))
          else ([], s)
      | _ \<Rightarrow> ([], s))"

definition parse_exponent :: "jsstring \<Rightarrow> int \<times> jsstring" where
  "parse_exponent s =
     (case s of
        e # r \<Rightarrow>
          if e = 0x65 \<or> e = 0x45 then
            (case r of
               g # r' \<Rightarrow>
                 if is_digit g then (digits_value (takeWhile is_digit r), dropWhile is_digit r)
                 else if (g = 0x2B \<or> g = 0x2D) \<and> r' \<noteq> [] \<and> is_digit (hd r') then
                   ((if g = 0x2D then - 1 else 1) * digits_value (takeWhile is_digit r'),
                    dropWhile is_digit r')
                 else (0, s)
             | [] \<Rightarrow> (0, s))
          else (0, s)
      | [] \<Rightarrow> (0, s))"

definition parse_number :: "jsstring \<Rightarrow> (jsnum \<times> jsstring) option" where
  "parse_number s =
     (let neg = (s \<noteq> [] \<and> hd s = 0x2D);
          s1 = (if neg then tl s else s)
      in case s1 of
           [] \<Rightarrow> None
         | d # r \<Rightarrow>
             if \<not> is_digit d then None
             else
               (let ip = (if d = 0x30 then [d] else takeWhile is_digit s1);
                    s2 = (if d = 0x30 then r else dropWhile is_digit s1);
                    (fp, s3) = parse_fraction s2;
                    (ex, s4) = parse_exponent s3
                in Some (JsNum neg (digits_value (ip @ fp)) (ex - int (length fp)), s4)))"

fun parse_value :: "nat \<Rightarrow> jsstring \<Rightarrow> (json \<times> jsstring) option"
  and parse_elements :: "nat \<Rightarrow> json list \<Rightarrow> jsstring \<Rightarrow> (json \<times> jsstring) option"
  and parse_members ::
    "nat \<Rightarrow> (jsstring \<times> json) list \<Rightarrow> jsstring \<Rightarrow> (json \<times> jsstring) option" where
  "parse_value 0 s = None"
| "parse_value (Suc n) s =
     (case skip_ws s of
        [] \<Rightarrow> None
      | c # cs \<Rightarrow>
          if c = 0x22 then
            (case parse_string_body cs of
               None \<Rightarrow> None
             | Some (str, rest) \<Rightarrow> Some (JStr str, rest))
          else if c = 0x5B then
            (case skip_ws cs of
               [] \<Rightarrow> None
             | d # ds \<Rightarrow> if d = 0x5D then Some (JArr [], ds) else parse_elements n [] cs)
          else if c = 0x7B then
            (case skip_ws cs of
               [] \<Rightarrow> None
             | d # ds \<Rightarrow> if d = 0x7D then Some (JObj [], ds) else parse_members n [] cs)
          else if take 4 (c # cs) = js ''true'' then Some (JBool True, drop 4 (c # cs))
          else if take 5 (c # cs) = js ''false'' then Some (JBool False, drop 5 (c # cs))
          else if take 4 (c # cs) = js ''null'' then Some (JNull, drop 4 (c # cs))
          else
            (case parse_number (c # cs) of
               None \<Rightarrow> None
             | Some (num, rest) \<Rightarrow> Some (JNum num, rest)))"
| "parse_elements 0 acc s = None"
| "parse_elements (Suc n) acc s =
     (case parse_value n s of
        None \<Rightarrow> None
      | Some (v, rest) \<Rightarrow>
          (case skip_ws rest of
             [] \<Rightarrow> None
           | c # cs \<Rightarrow>
               if c = 0x2C then parse_elements n (acc @ [v]) cs
               else if c = 0x5D then Some (JArr (acc @ [v]), cs)
               else None))"
| "parse_members 0 acc s = None"
| "parse_members (Suc n) acc s =
     (case skip_ws s of
        [] \<Rightarrow> None
      | c # cs \<Rightarrow>
          if c \<noteq> 0x22 then None
          else
            (case parse_string_body cs of
               None \<Rightarrow> None
             | Some (key, r1) \<Rightarrow>
                 (case skip_ws r1 of
                    [] \<Rightarrow> None
                  | c1 # r2 \<Rightarrow>
                      if c1 \<noteq> 0x3A then None
                      else
                        (case parse_value n r2 of
                           None \<Rightarrow> None
                         | Some (v, r3) \<Rightarrow>
                             (case skip_ws r3 of
                                [] \<Rightarrow> None
                              | c3 # r4 \<Rightarrow>
                                  if c3 = 0x2C then parse_members n (obj_put acc key v) r4
                                  else if c3 = 0x7D then Some (JObj (obj_put acc key v), r4)
                                  else None)))))"

definition JSON_parse :: "jsstring \<Rightarrow> jsfault + json" where
  "JSON_parse text =
     (case parse_value (Suc (length text)) text of
        None \<Rightarrow> Inl SyntaxError
      | Some (v, rest) \<Rightarrow> if skip_ws rest = [] then Inr v else Inl SyntaxError)"

section \<open>\<open>btoa\<close> and \<open>atob\<close>\<close>

definition base64_char :: "byte \<Rightarrow> jschar" where
  "base64_char v =
     (if v < 26 then 0x41 + ucast v
      else if v < 52 then 0x61 + ucast (v - 26)
      else if v < 62 then 0x30 + ucast (v - 52)
      else if v = 62 then 0x2B else 0x2F)"

fun base64_encode :: "byte list \<Rightarrow> jsstring" where
  "base64_encode [] = []"
| "base64_encode [a] =
     [base64_char (drop_bit 2 a), base64_char (push_bit 4 (a AND 3)), 0x3D, 0x3D]"
| "base64_encode [a, b] =
     [base64_char (drop_bit 2 a), base64_char (push_bit 4 (a AND 3) OR drop_bit 4 b),
      base64_char (push_bit 2 (b AND 15)), 0x3D]"
| "base64_encode (a # b # c # rest) =
     [base64_char (drop_bit 2 a), base64_char (push_bit 4 (a AND 3) OR drop_bit 4 b),
      base64_char (push_bit 2 (b AND 15) OR drop_bit 6 c), base64_char (c AND 63)]
     @ base64_encode rest"

text \<open>\<open>btoa\<close> raises on a code unit above \<open>0xFF\<close>; the others are the bytes it encodes.\<close>

definition btoa :: "jsstring \<Rightarrow> jsfault + jsstring" where
  "btoa s =
     (if list_all (\<lambda>c. c \<le> 0xFF) s then Inr (base64_encode (map ucast s))
      else Inl InvalidCharacterError)"

definition base64_value :: "jschar \<Rightarrow> byte option" where
  "base64_value c =
     (if 0x41 \<le> c \<and> c \<le> 0x5A then Some (ucast (c - 0x41))
      else if 0x61 \<le> c \<and> c \<le> 0x7A then Some (ucast (c - 0x61) + 26)
      else if 0x30 \<le> c \<and> c \<le> 0x39 then Some (ucast (c - 0x30) + 52)
      else if c = 0x2B then Some 62
      else if c = 0x2F then Some 63
      else None)"

fun base64_decode :: "byte list \<Rightarrow> byte list" where
  "base64_decode (a # b # c # d # rest) =
     [push_bit 2 a OR drop_bit 4 b, push_bit 4 b OR drop_bit 2 c, push_bit 6 c OR d]
     @ base64_decode rest"
| "base64_decode [a, b, c] = [push_bit 2 a OR drop_bit 4 b, push_bit 4 b OR drop_bit 2 c]"
| "base64_decode [a, b] = [push_bit 2 a OR drop_bit 4 b]"
| "base64_decode _ = []"

text \<open>
  \<open>atob\<close>, the forgiving base64 decoding: ASCII white space is removed; if the length is then
  a multiple of four, one or two closing \<open>=\<close> are removed; a length of one more than a
  multiple of four, or a code unit outside the alphabet, raises.
\<close>

definition is_ascii_ws :: "jschar \<Rightarrow> bool" where
  "is_ascii_ws c = (c = 0x09 \<or> c = 0x0A \<or> c = 0x0C \<or> c = 0x0D \<or> c = 0x20)"

definition strip_padding :: "jsstring \<Rightarrow> jsstring" where
  "strip_padding s =
     (if length s mod 4 = 0 \<and> s \<noteq> [] \<and> last s = 0x3D then
        (if butlast s \<noteq> [] \<and> last (butlast s) = 0x3D then butlast (butlast s) else butlast s)
      else s)"

definition atob :: "jsstring \<Rightarrow> jsfault + jsstring" where
  "atob text =
     (let s = strip_padding (filter (\<lambda>c. \<not> is_ascii_ws c) text)
      in if length s mod 4 = 1 \<or> \<not> list_all (\<lambda>c. base64_value c \<noteq> None) s
         then Inl InvalidCharacterError
         else Inr (map ucast (base64_decode (List.map_filter base64_value s))))"

section \<open>Dates\<close>

text \<open>
  A \<open>Date\<close> holds a time value, milliseconds since the epoch, or \<open>NaN\<close> (here \<open>None\<close>).  The
  functions are those of the language standard; the local time zone of the runtime is UTC.
\<close>

definition msPerDay :: int where
  "msPerDay = 86400000"

definition Day :: "int \<Rightarrow> int" where
  "Day t = t div msPerDay"

definition TimeWithinDay :: "int \<Rightarrow> int" where
  "TimeWithinDay t = t mod msPerDay"

definition leap_year :: "int \<Rightarrow> bool" where
  "leap_year y = (y mod 4 = 0 \<and> (y mod 100 \<noteq> 0 \<or> y mod 400 = 0))"

definition DayFromYear :: "int \<Rightarrow> int" where
  "DayFromYear y =
     365 * (y - 1970) + (y - 1969) div 4 - (y - 1901) div 100 + (y - 1601) div 400"

text \<open>
  \<open>YearFromTime\<close> is the largest year that starts no later than the day: the year of the
  average calendar is off by at most one, which the two tests repair.
\<close>

definition year_of_day :: "int \<Rightarrow> int" where
  "year_of_day d =
     (let g = 1970 + (400 * d) div 146097
      in if d < DayFromYear g then g - 1
         else if DayFromYear (g + 1) \<le> d then g + 1
         else g)"

definition YearFromTime :: "int \<Rightarrow> int" where
  "YearFromTime t = year_of_day (Day t)"

text \<open>The day within the year on which each month starts, January being month 0.\<close>

definition month_start :: "bool \<Rightarrow> int \<Rightarrow> int" where
  "month_start leap m =
     (if m = 0 then 0 else if m = 1 then 31
      else (if leap then 1 else 0)
           + (if m = 2 then 59 else if m = 3 then 90 else if m = 4 then 120
              else if m = 5 then 151 else if m = 6 then 181 else if m = 7 then 212
              else if m = 8 then 243 else if m = 9 then 273 else if m = 10 then 304
              else 334))"

definition DayWithinYear :: "int \<Rightarrow> int" where
  "DayWithinYear t = Day t - DayFromYear (YearFromTime t)"

definition MonthFromTime :: "int \<Rightarrow> int" where
  "MonthFromTime t =
     (let leap = leap_year (YearFromTime t); d = DayWithinYear t
      in if d < month_start leap 1 then 0 else if d < month_start leap 2 then 1
         else if d < month_start leap 3 then 2 else if d < month_start leap 4 then 3
         else if d < month_start leap 5 then 4 else if d < month_start leap 6 then 5
         else if d < month_start leap 7 then 6 else if d < month_start leap 8 then 7
         else if d < month_start leap 9 then 8 else if d < month_start leap 10 then 9
         else if d < month_start leap 11 then 10 else 11)"

definition DateFromTime :: "int \<Rightarrow> int" where
  "DateFromTime t =
     DayWithinYear t - month_start (leap_year (YearFromTime t)) (MonthFromTime t) + 1"

definition WeekDay :: "int \<Rightarrow> int" where
  "WeekDay t = (Day t + 4) mod 7"

text \<open>\<open>MakeDay\<close> for a month from 0 to 11, \<open>MakeDate\<close> and \<open>TimeClip\<close>.\<close>

definition MakeDay :: "int \<Rightarrow> int \<Rightarrow> int \<Rightarrow> int" where
  "MakeDay y m dt = DayFromYear y + month_start (leap_year y) m + dt - 1"

definition MakeDate :: "int \<Rightarrow> int \<Rightarrow> int" where
  "MakeDate day time = day * msPerDay + time"

definition TimeClip :: "int \<Rightarrow> int option" where
  "TimeClip t = (if \<bar>t\<bar> > 8640000000000000 then None else Some t)"

text \<open>\<open>date.getFullYear()\<close> and \<open>date.setFullYear(y)\<close> on a valid date.\<close>

definition getFullYear :: "int \<Rightarrow> int" where
  "getFullYear t = YearFromTime t"

definition setFullYear :: "int \<Rightarrow> int \<Rightarrow> int option" where
  "setFullYear t y =
     TimeClip (MakeDate (MakeDay y (MonthFromTime t) (DateFromTime t)) (TimeWithinDay t))"

primrec dec_digits :: "nat \<Rightarrow> int \<Rightarrow> jsstring" where
  "dec_digits 0 v = []"
| "dec_digits (Suc k) v = dec_digits k (v div 10) @ [0x30 + of_int (v mod 10)]"

definition day_name :: "int \<Rightarrow> jsstring" where
  "day_name w =
     (if w = 0 then js ''Sun'' else if w = 1 then js ''Mon'' else if w = 2 then js ''Tue''
      else if w = 3 then js ''Wed'' else if w = 4 then js ''Thu'' else if w = 5 then js ''Fri''
      else js ''Sat'')"

definition month_name :: "int \<Rightarrow> jsstring" where
  "month_name m =
     (if m = 0 then js ''Jan'' else if m = 1 then js ''Feb'' else if m = 2 then js ''Mar''
      else if m = 3 then js ''Apr'' else if m = 4 then js ''May'' else if m = 5 then js ''Jun''
      else if m = 6 then js ''Jul'' else if m = 7 then js ''Aug'' else if m = 8 then js ''Sep''
      else if m = 9 then js ''Oct'' else if m = 10 then js ''Nov'' else js ''Dec'')"

definition padded_year :: "int \<Rightarrow> jsstring" where
  "padded_year y =
     (if y < 0 then js ''-'' else [])
     @ (if \<bar>y\<bar> < 10000 then dec_digits 4 \<bar>y\<bar>
        else if \<bar>y\<bar> < 100000 then dec_digits 5 \<bar>y\<bar> else dec_digits 6 \<bar>y\<bar>)"

definition toUTCString :: "int option \<Rightarrow> jsstring" where
  "toUTCString tv =
     (case tv of
        None \<Rightarrow> js ''Invalid Date''
      | Some t \<Rightarrow>
          day_name (WeekDay t) @ js '', '' @ dec_digits 2 (DateFromTime t) @ js '' ''
          @ month_name (MonthFromTime t) @ js '' '' @ padded_year (YearFromTime t) @ js '' ''
          @ dec_digits 2 (t div 3600000 mod 24) @ js '':'' @ dec_digits 2 (t div 60000 mod 60)
          @ js '':'' @ dec_digits 2 (t div 1000 mod 60) @ js '' GMT'')"

section \<open>The consent form handler (auth/oauth-utils)\<close>

text \<open>
  Of the request \<open>parseRedirectApproval\<close> reads the form data: the entries in order, each a
  string or a file.  \<open>formData.get\<close> gives the first entry of the name, or \<open>null\<close>.  The clock
  \<open>now\<close> is what \<open>new Date()\<close> returns.
\<close>

datatype form_entry = FormString jsstring | FormFile

definition formData_get :: "(jsstring \<times> form_entry) list \<Rightarrow> jsstring \<Rightarrow> form_entry option" where
  "formData_get form name = map_of form name"

definition cookie_attributes :: "int option \<Rightarrow> jsstring" where
  "cookie_attributes expires =
     js ''; Path=/; HttpOnly; Secure; SameSite=Strict; Expires='' @ toUTCString expires"

definition approval_directives :: "jsstring \<Rightarrow> jsstring \<Rightarrow> int option \<Rightarrow> jsstring list" where
  "approval_directives clientId signature expires =
     [js ''client_'' @ clientId @ js ''_approved=true'' @ cookie_attributes expires,
      js ''client_'' @ clientId @ js ''_signature='' @ signature @ cookie_attributes expires]"

text \<open>The optional chain \<open>v?.name\<close>: \<open>undefined\<close> when \<open>v\<close> is \<open>undefined\<close> or \<open>null\<close>.\<close>

definition js_get_optional :: "json option \<Rightarrow> jsstring \<Rightarrow> json option" where
  "js_get_optional v name =
     (case v of
        None \<Rightarrow> None
      | Some JNull \<Rightarrow> None
      | Some x \<Rightarrow> (case js_get x name of Inl f \<Rightarrow> None | Inr r \<Rightarrow> r))"

definition parseRedirectApproval ::
  "(jsnum \<Rightarrow> jsstring) \<Rightarrow> int \<Rightarrow> (jsstring \<times> form_entry) list \<Rightarrow> jsstring
   \<Rightarrow> jsfault + (json \<times> (jsstring \<times> jsstring) list)" where
  "parseRedirectApproval nts now form encryptionKey =
     (case formData_get form (js ''state'') of
        None \<Rightarrow> Inl (Error (js ''Invalid state in form data''))
      | Some FormFile \<Rightarrow> Inl (Error (js ''Invalid state in form data''))
      | Some (FormString stateStr) \<Rightarrow>
          if stateStr = [] then Inl (Error (js ''Invalid state in form data''))
          else
            (case JSON_parse stateStr of
               Inl e \<Rightarrow> Inl e
             | Inr state \<Rightarrow>
                 (case js_get state (js ''oauthReqInfo'') of
                    Inl e \<Rightarrow> Inl e
                  | Inr oauthReqInfo \<Rightarrow>
                      (let clientId = js_get_optional oauthReqInfo (js ''clientId'')
                       in if \<not> truthy clientId
                          then Inl (Error (js ''Invalid OAuth request info in state''))
                          else
                            (case getSigningKey encryptionKey of
                               Inl e \<Rightarrow> Inl e
                             | Inr key \<Rightarrow>
                                 (let signature = signData key (js ''true'');
                                      expires = setFullYear now (getFullYear now + 1)
                                  in Inr (state,
                                          [(js ''Set-Cookie'',
                                            join_with (js '', '')
                                              (approval_directives (js_to_string_opt nts clientId)
                                                 signature expires))])))))))"

section \<open>Responses\<close>

text \<open>
  A response is its status, its header list and its body.  The \<open>Headers\<close> of a response hold
  lower-case names, and values with HTTP white space trimmed; a value with a code unit above
  \<open>0xFF\<close>, a NUL, a line feed or a carriage return is refused with a \<open>TypeError\<close>.  A string
  body without a content type gets the default one.
\<close>

record response =
  status :: int
  headers :: "(jsstring \<times> jsstring) list"
  body :: "jsstring option"

definition ascii_lower :: "jschar \<Rightarrow> jschar" where
  "ascii_lower c = (if 0x41 \<le> c \<and> c \<le> 0x5A then c + 0x20 else c)"

definition is_http_ws :: "jschar \<Rightarrow> bool" where
  "is_http_ws c = (c = 0x09 \<or> c = 0x0A \<or> c = 0x0D \<or> c = 0x20)"

definition http_trim :: "jsstring \<Rightarrow> jsstring" where
  "http_trim v = rev (dropWhile is_http_ws (rev (dropWhile is_http_ws v)))"

definition header_value_ok :: "jsstring \<Rightarrow> bool" where
  "header_value_ok v = list_all (\<lambda>c. c \<le> 0xFF \<and> c \<noteq> 0 \<and> c \<noteq> 0x0A \<and> c \<noteq> 0x0D) (http_trim v)"

definition new_Response ::
  "jsstring option \<Rightarrow> int \<Rightarrow> (jsstring \<times> jsstring) list \<Rightarrow> jsfault + response" where
  "new_Response b st init =
     (if \<not> list_all (\<lambda>(n, v). header_value_ok v) init then Inl TypeError
      else
        (let hs = map (\<lambda>(n, v). (map ascii_lower n, http_trim v)) init
         in Inr \<lparr>status = st,
                 headers =
                   (if b \<noteq> None \<and> js ''content-type'' \<notin> fst ` set hs
                    then hs @ [(js ''content-type'', js ''text/plain;charset=UTF-8'')] else hs),
                 body = b\<rparr>))"

text \<open>\<open>new Response(text, {status})\<close> with no headers given, which cannot raise.\<close>

definition Response_text :: "jsstring \<Rightarrow> int \<Rightarrow> response" where
  "Response_text text st =
     \<lparr>status = st, headers = [(js ''content-type'', js ''text/plain;charset=UTF-8'')],
      body = Some text\<rparr>"

text \<open>
  The framework's \<open>c.text(text, status)\<close> and the platform's \<open>Response.redirect(url)\<close>, for a
  \<open>url\<close> that is an absolute URL in serialised form.
\<close>

definition c_text :: "jsstring \<Rightarrow> int \<Rightarrow> response" where
  "c_text text st =
     \<lparr>status = st, headers = [(js ''content-type'', js ''text/plain; charset=UTF-8'')],
      body = Some text\<rparr>"

definition Response_redirect :: "jsstring \<Rightarrow> response" where
  "Response_redirect url = \<lparr>status = 302, headers = [(js ''location'', url)], body = None\<rparr>"

section \<open>The access-denied page (config/allowed-users)\<close>

definition denied_lines_before :: "jsstring list" where
  \<open>denied_lines_before =
     [[],
      js ''<!DOCTYPE html>'',
      js ''<html>'',
      js ''<head>'',
      js ''  <meta charset='' @ [0x22] @ js ''UTF-8'' @ [0x22] @ js ''>'',
      js ''  <meta name='' @ [0x22] @ js ''viewport'' @ [0x22] @ js '' content='' @ [0x22] @ js ''width=device-width, initial-scale=1.0'' @ [0x22] @ js ''>'',
      js ''  <title>Access Denied</title>'',
      js ''  <style>'',
      js ''    body {'',
      js ''      font-family: -apple-system, BlinkMacSystemFont, '' @ [0x27] @ js ''Segoe UI'' @ [0x27] @ js '', Roboto, sans-serif;'',
      js ''      background: #f5f5f5;'',
      js ''      margin: 0;'',
      js ''      padding: 20px;'',
      js ''      display: flex;'',
      js ''      justify-content: center;'',
      js ''      align-items: center;'',
      js ''      min-height: 100vh;'',
      js ''    }'',
      js ''    .container {'',
      js ''      background: white;'',
      js ''      border-radius: 8px;'',
      js ''      box-shadow: 0 2px 10px rgba(0,0,0,0.1);'',
      js ''      padding: 32px;'',
      js ''      max-width: 400px;'',
      js ''      width: 100%;'',
      js ''      text-align: center;'',
      js ''    }'',
      js ''    .icon {'',
      js ''      width: 64px;'',
      js ''      height: 64px;'',
      js ''      margin: 0 auto 16px;'',
      js ''      background: #dc3545;'',
      js ''      border-radius: 50%;'',
      js ''      display: flex;'',
      js ''      align-items: center;'',
      js ''      justify-content: center;'',
      js ''      color: white;'',
      js ''      font-size: 32px;'',
      js ''    }'',
      js ''    h1 {'',
      js ''      font-size: 24px;'',
      js ''      margin: 0 0 16px;'',
      js ''      color: #333;'',
      js ''    }'',
      js ''    p {'',
      js ''      color: #666;'',
      js ''      line-height: 1.5;'',
      js ''      margin: 0 0 24px;'',
      js ''    }'',
      js ''    .username {'',
      js ''      font-family: monospace;'',
      js ''      background: #f8f9fa;'',
      js ''      padding: 4px 8px;'',
      js ''      border-radius: 4px;'',
      js ''    }'',
      js ''  </style>'',
      js ''</head>'',
      js ''<body>'',
      js ''  <div class='' @ [0x22] @ js ''container'' @ [0x22] @ js ''>'',
      js ''    <div class='' @ [0x22] @ js ''icon'' @ [0x22] @ js ''>'' @ [0xD7] @ js ''</div>'',
      js ''    <h1>Access Denied</h1>'',
      js ''    <p>'']\<close>

definition denied_lines_after :: "jsstring list" where
  \<open>denied_lines_after =
     [js ''    </p>'',
      js ''    <p>'',
      js ''      Please contact the server administrator to request access.'',
      js ''    </p>'',
      js ''  </div>'',
      js ''</body>'',
      js ''</html>'']\<close>

definition denied_html :: "jsstring \<Rightarrow> jsstring" where
  \<open>denied_html username =
     join_with [0x0A]
       (denied_lines_before
        @ [js ''      The user <span class='' @ [0x22] @ js ''username'' @ [0x22] @ js ''>'' @ username @ js ''</span> is not authorized to access this MCP server.'']
        @ denied_lines_after)\<close>

definition getAuthDeniedResponse :: "jsstring \<Rightarrow> response" where
  "getAuthDeniedResponse username =
     \<lparr>status = 403, headers = [(js ''content-type'', js ''text/html; charset=utf-8'')],
      body = Some (denied_html username)\<rparr>"

section \<open>The approval dialog (auth/oauth-utils)\<close>

definition encodeHtml :: "jsstring \<Rightarrow> jsstring" where
  "encodeHtml str =
     concat (map (\<lambda>c. if c = 0x26 then js ''&amp;'' else if c = 0x3C then js ''&lt;''
                        else if c = 0x3E then js ''&gt;'' else if c = 0x22 then js ''&quot;''
                        else if c = 0x27 then js ''&#x27;'' else [c]) str)"

definition approval_html ::
  "jsstring \<Rightarrow> jsstring \<Rightarrow> jsstring \<Rightarrow> jsstring \<Rightarrow> jsstring \<Rightarrow> jsstring" where
  \<open>approval_html logo name description client_name stateJson =
     join_with [0x0A]
       [[],
        js ''<!DOCTYPE html>'',
        js ''<html>'',
        js ''<head>'',
        js ''  <meta charset='' @ [0x22] @ js ''UTF-8'' @ [0x22] @ js ''>'',
        js ''  <meta name='' @ [0x22] @ js ''viewport'' @ [0x22] @ js '' content='' @ [0x22] @ js ''width=device-width, initial-scale=1.0'' @ [0x22] @ js ''>'',
        js ''  <title>Approve Access</title>'',
        js ''  <style>'',
        js ''    body {'',
        js ''      font-family: -apple-system, BlinkMacSystemFont, '' @ [0x27] @ js ''Segoe UI'' @ [0x27] @ js '', Roboto, sans-serif;'',
        js ''      background: #f5f5f5;'',
        js ''      margin: 0;'',
        js ''      padding: 20px;'',
        js ''      display: flex;'',
        js ''      justify-content: center;'',
        js ''      align-items: center;'',
        js ''      min-height: 100vh;'',
        js ''    }'',
        js ''    .container {'',
        js ''      background: white;'',
        js ''      border-radius: 8px;'',
        js ''      box-shadow: 0 2px 10px rgba(0,0,0,0.1);'',
        js ''      padding: 32px;'',
        js ''      max-width: 400px;'',
        js ''      width: 100%;'',
        js ''    }'',
        js ''    .logo {'',
        js ''      width: 64px;'',
        js ''      height: 64px;'',
        js ''      margin: 0 auto 16px;'',
        js ''      display: block;'',
        js ''    }'',
        js ''    h1 {'',
        js ''      text-align: center;'',
        js ''      font-size: 24px;'',
        js ''      margin: 0 0 24px;'',
        js ''      color: #333;'',
        js ''    }'',
        js ''    .description {'',
        js ''      text-align: center;'',
        js ''      color: #666;'',
        js ''      margin-bottom: 24px;'',
        js ''      line-height: 1.5;'',
        js ''    }'',
        js ''    .client-info {'',
        js ''      background: #f8f9fa;'',
        js ''      padding: 16px;'',
        js ''      border-radius: 6px;'',
        js ''      margin-bottom: 24px;'',
        js ''    }'',
        js ''    .client-info h3 {'',
        js ''      margin: 0 0 8px;'',
        js ''      font-size: 16px;'',
        js ''      color: #333;'',
        js ''    }'',
        js ''    .client-info p {'',
        js ''      margin: 0;'',
        js ''      color: #666;'',
        js ''      font-size: 14px;'',
        js ''    }'',
        js ''    .actions {'',
        js ''      display: flex;'',
        js ''      gap: 12px;'',
        js ''    }'',
        js ''    button {'',
        js ''      flex: 1;'',
        js ''      padding: 12px 24px;'',
        js ''      border-radius: 6px;'',
        js ''      font-size: 16px;'',
        js ''      font-weight: 500;'',
        js ''      cursor: pointer;'',
        js ''      border: none;'',
        js ''      transition: all 0.2s;'',
        js ''    }'',
        js ''    .approve {'',
        js ''      background: #4285f4;'',
        js ''      color: white;'',
        js ''    }'',
        js ''    .approve:hover {'',
        js ''      background: #357ae8;'',
        js ''    }'',
        js ''    .cancel {'',
        js ''      background: #f1f3f4;'',
        js ''      color: #5f6368;'',
        js ''    }'',
        js ''    .cancel:hover {'',
        js ''      background: #e8eaed;'',
        js ''    }'',
        js ''  </style>'',
        js ''</head>'',
        js ''<body>'',
        js ''  <div class='' @ [0x22] @ js ''container'' @ [0x22] @ js ''>'',
        js ''    <img src='' @ [0x22] @ logo @ [0x22] @ js '' alt='' @ [0x22] @ name @ [0x22] @ js '' class='' @ [0x22] @ js ''logo'' @ [0x22] @ js ''>'',
        js ''    <h1>Authorize '' @ name @ js ''</h1>'',
        [],
        js ''    <p class='' @ [0x22] @ js ''description'' @ [0x22] @ js ''>'',
        js ''      '' @ client_name @ js '' wants to access your '' @ name @ js '' account'',
        js ''    </p>'',
        [],
        js ''    <div class='' @ [0x22] @ js ''client-info'' @ [0x22] @ js ''>'',
        js ''      <h3>'' @ client_name @ js ''</h3>'',
        js ''      <p>'' @ description @ js ''</p>'',
        js ''    </div>'',
        [],
        js ''    <form method='' @ [0x22] @ js ''POST'' @ [0x22] @ js '' action='' @ [0x22] @ js ''/authorize'' @ [0x22] @ js ''>'',
        js ''      <input type='' @ [0x22] @ js ''hidden'' @ [0x22] @ js '' name='' @ [0x22] @ js ''state'' @ [0x22] @ js '' value='' @ [0x22] @ encodeHtml stateJson @ [0x22] @ js ''>'',
        js ''      <div class='' @ [0x22] @ js ''actions'' @ [0x22] @ js ''>'',
        js ''        <button type='' @ [0x22] @ js ''button'' @ [0x22] @ js '' class='' @ [0x22] @ js ''cancel'' @ [0x22] @ js '' onclick='' @ [0x22] @ js ''window.close()'' @ [0x22] @ js ''>Cancel</button>'',
        js ''        <button type='' @ [0x22] @ js ''submit'' @ [0x22] @ js '' class='' @ [0x22] @ js ''approve'' @ [0x22] @ js ''>Authorize</button>'',
        js ''      </div>'',
        js ''    </form>'',
        js ''  </div>'',
        js ''</body>'',
        js ''</html>'']\<close>

section \<open>The upstream authorisation URL (auth/oauth-utils)\<close>

text \<open>
  \<open>url.searchParams.set\<close> writes a value in the form-urlencoded way: the UTF-8 bytes, letters,
  digits and \<open>*-._\<close> as they are, a space as \<open>+\<close>, any other byte as a percent escape in
  upper-case hex.  \<open>getUpstreamAuthorizeUrl\<close> is modelled for an \<open>upstream_url\<close> in serialised
  form without a query, as its caller passes.
\<close>

definition urlencode_byte :: "byte \<Rightarrow> jsstring" where
  "urlencode_byte b =
     (if (0x30 \<le> b \<and> b \<le> 0x39) \<or> (0x41 \<le> b \<and> b \<le> 0x5A) \<or> (0x61 \<le> b \<and> b \<le> 0x7A)
         \<or> b = 0x2A \<or> b = 0x2D \<or> b = 0x2E \<or> b = 0x5F then [ucast b]
      else if b = 0x20 then [0x2B]
      else 0x25 # map (\<lambda>c. if 0x61 \<le> c \<and> c \<le> 0x66 then c - 0x20 else c) (hex_of_byte b))"

definition urlencode :: "jsstring \<Rightarrow> jsstring" where
  "urlencode s = concat (map urlencode_byte (TextEncoder_encode s))"

record authorize_params =
  p_client_id :: jsstring
  p_redirect_uri :: jsstring
  p_scope :: jsstring
  p_state :: jsstring
  p_upstream_url :: jsstring

definition getUpstreamAuthorizeUrl :: "authorize_params \<Rightarrow> jsstring" where
  "getUpstreamAuthorizeUrl params =
     p_upstream_url params @ js ''?response_type=code''
     @ js ''&client_id='' @ urlencode (p_client_id params)
     @ js ''&redirect_uri='' @ urlencode (p_redirect_uri params)
     @ js ''&scope='' @ urlencode (p_scope params)
     @ js ''&state='' @ urlencode (p_state params)"

section \<open>The routes (auth/google-handler)\<close>

text \<open>
  What a handler reads of the request, the bindings of the environment, and the collaborators
  that are not code of the repository: the OAuth provider library and the two Google
  endpoints.  \<open>fetch\<close> either rejects or gives a response, of which the handler reads \<open>ok\<close> and
  the body text (\<open>json()\<close> parses it).
\<close>

record request =
  url_origin :: jsstring
  cookie_header :: "jsstring option"
  query_state :: "jsstring option"
  query_code :: "jsstring option"
  form_data :: "(jsstring \<times> form_entry) list"

record env =
  GOOGLE_CLIENT_ID :: jsstring
  GOOGLE_CLIENT_SECRET :: jsstring
  COOKIE_ENCRYPTION_KEY :: jsstring

datatype fetch_result = FetchRejected | FetchResponse bool jsstring

record token_request =
  tr_code :: jsstring
  tr_client_id :: jsstring
  tr_client_secret :: jsstring
  tr_redirect_uri :: jsstring
  tr_grant_type :: jsstring

record complete_options =
  co_label :: json
  co_accessToken :: "json option"
  co_email :: json
  co_login :: jsstring
  co_name :: json
  co_request :: json
  co_scope :: "json option"
  co_userId :: json

record world =
  parseAuthRequest :: "request \<Rightarrow> jsfault + json"
  lookupClient :: "json option \<Rightarrow> jsfault + json"
  token_endpoint :: "token_request \<Rightarrow> fetch_result"
  userinfo_endpoint :: "jsstring \<Rightarrow> fetch_result"
  completeAuthorization :: "complete_options \<Rightarrow> jsfault + jsstring"

text \<open>What a handler does to the outside, in order.\<close>

datatype effect =
    TokenExchange token_request
  | UserinfoFetch jsstring
  | ConsoleError jsstring
  | CompleteAuthorization complete_options

definition redirectToGoogle ::
  "(jsnum \<Rightarrow> jsstring) \<Rightarrow> request \<Rightarrow> json \<Rightarrow> env \<Rightarrow> (jsstring \<times> jsstring) list
   \<Rightarrow> jsfault + response" where
  "redirectToGoogle nts req oauthReqInfo e hdrs =
     (case btoa (JSON_stringify nts oauthReqInfo) of
        Inl f \<Rightarrow> Inl f
      | Inr st \<Rightarrow>
          new_Response None 302
            (hdrs @ [(js ''location'',
                      getUpstreamAuthorizeUrl
                        \<lparr>p_client_id = GOOGLE_CLIENT_ID e,
                         p_redirect_uri = url_origin req @ js ''/callback'',
                         p_scope = js ''openid email profile'',
                         p_state = st,
                         p_upstream_url = js ''https://accounts.google.com/o/oauth2/v2/auth''\<rparr>)]))"

definition renderApprovalDialog :: "(jsnum \<Rightarrow> jsstring) \<Rightarrow> json \<Rightarrow> json \<Rightarrow> jsfault + response" where
  "renderApprovalDialog nts client st =
     (case js_get client (js ''name'') of
        Inl f \<Rightarrow> Inl f
      | Inr client_name \<Rightarrow>
          Inr \<lparr>status = 200, headers = [(js ''content-type'', js ''text/html; charset=utf-8'')],
               body =
                 Some (approval_html
                         (js ''https://www.gstatic.com/images/branding/product/2x/googleg_96dp.png'')
                         (js ''SimBrief MCP Server'')
                         (js ''This is a SimBrief Flight Planning MCP Server using Google for authentication.'')
                         (js_to_string_opt nts client_name)
                         (JSON_stringify nts st))\<rparr>)"

definition get_authorize ::
  "(jsnum \<Rightarrow> jsstring) \<Rightarrow> world \<Rightarrow> env \<Rightarrow> request \<Rightarrow> jsfault + response" where
  "get_authorize nts w e req =
     (case parseAuthRequest w req of
        Inl f \<Rightarrow> Inl f
      | Inr oauthReqInfo \<Rightarrow>
          (case js_get oauthReqInfo (js ''clientId'') of
             Inl f \<Rightarrow> Inl f
           | Inr clientId \<Rightarrow>
               if \<not> truthy clientId then Inr (c_text (js ''Invalid request'') 400)
               else
                 (case clientIdAlreadyApproved (cookie_header req) (js_to_string_opt nts clientId)
                         (COOKIE_ENCRYPTION_KEY e) of
                    Inl f \<Rightarrow> Inl f
                  | Inr approved \<Rightarrow>
                      if approved then redirectToGoogle nts req oauthReqInfo e []
                      else
                        (case lookupClient w clientId of
                           Inl f \<Rightarrow> Inl f
                         | Inr client \<Rightarrow>
                             renderApprovalDialog nts client
                               (JObj [(js ''oauthReqInfo'', oauthReqInfo)])))))"

definition post_authorize ::
  "(jsnum \<Rightarrow> jsstring) \<Rightarrow> int \<Rightarrow> env \<Rightarrow> request \<Rightarrow> jsfault + response" where
  "post_authorize nts now e req =
     (case parseRedirectApproval nts now (form_data req) (COOKIE_ENCRYPTION_KEY e) of
        Inl f \<Rightarrow> Inl f
      | Inr (st, hdrs) \<Rightarrow>
          (case js_get st (js ''oauthReqInfo'') of
             Inl f \<Rightarrow> Inl f
           | Inr oauthReqInfo \<Rightarrow>
               if \<not> truthy oauthReqInfo then Inr (c_text (js ''Invalid request'') 400)
               else redirectToGoogle nts req (the oauthReqInfo) e hdrs))"

text \<open>
  \<open>fetchGoogleAccessToken\<close> returns a pair of which one half is \<open>null\<close>: here the access token
  on the left (whatever the \<open>access_token\<close> member of the answer is, \<open>None\<close> when it has none)
  or the error response on the right.
\<close>

definition fetchGoogleAccessToken ::
  "world \<Rightarrow> jsstring \<Rightarrow> jsstring \<Rightarrow> jsstring option \<Rightarrow> jsstring
   \<Rightarrow> (jsfault + (json option + response)) \<times> effect list" where
  "fetchGoogleAccessToken w cid csecret code ruri =
     (if \<not> truthy_string code
      then (Inr (Inr (Response_text (js ''Missing authorization code'') 400)), [])
      else
        (let tr = \<lparr>tr_code = the code, tr_client_id = cid, tr_client_secret = csecret,
                    tr_redirect_uri = ruri, tr_grant_type = js ''authorization_code''\<rparr>
         in case token_endpoint w tr of
              FetchRejected \<Rightarrow> (Inl TypeError, [TokenExchange tr])
            | FetchResponse ok text \<Rightarrow>
                if \<not> ok then
                  (Inr (Inr (Response_text (js ''Failed to exchange authorization code'') 500)),
                   [TokenExchange tr, ConsoleError (js ''Failed to exchange token with Google'')])
                else
                  (case JSON_parse text of
                     Inl f \<Rightarrow> (Inl f, [TokenExchange tr])
                   | Inr tokenData \<Rightarrow>
                       (case js_get tokenData (js ''access_token'') of
                          Inl f \<Rightarrow> (Inl f, [TokenExchange tr])
                        | Inr accessToken \<Rightarrow> (Inr (Inl accessToken), [TokenExchange tr])))))"

text \<open>
  The part of the callback after the token exchange: the user-info request, the login, the
  access policy and the completion.
\<close>

definition callback_identity ::
  "(jsnum \<Rightarrow> jsstring) \<Rightarrow> world \<Rightarrow> json \<Rightarrow> json option \<Rightarrow> (jsfault + response) \<times> effect list" where
  "callback_identity nts w oauthReqInfo accessToken =
     (let authorization = js ''Bearer '' @ js_to_string_opt nts accessToken
      in if \<not> header_value_ok authorization then (Inl TypeError, [])
         else
           (case userinfo_endpoint w (http_trim authorization) of
              FetchRejected \<Rightarrow> (Inl TypeError, [UserinfoFetch (http_trim authorization)])
            | FetchResponse ok text \<Rightarrow>
                if \<not> ok then
                  (Inr (Response_text (js ''Failed to fetch user info'') 500),
                   [UserinfoFetch (http_trim authorization),
                    ConsoleError (js ''Failed to fetch user info from Google'')])
                else
                  (case JSON_parse text of
                     Inl f \<Rightarrow> (Inl f, [UserinfoFetch (http_trim authorization)])
                   | Inr userData \<Rightarrow>
                       (case js_get userData (js ''email'') of
                          Inl f \<Rightarrow> (Inl f, [UserinfoFetch (http_trim authorization)])
                        | Inr (Some (JStr email)) \<Rightarrow>
                            (let login = hd (split_on 0x40 email)
                             in if \<not> checkUserIsAllowed login
                                then (Inr (getAuthDeniedResponse login),
                                      [UserinfoFetch (http_trim authorization)])
                                else
                                  (case (js_get userData (js ''name''),
                                         js_get oauthReqInfo (js ''scope'')) of
                                     (Inr name, Inr scope) \<Rightarrow>
                                       (let shown = (if truthy name then the name else JStr login);
                                            opts =
                                              \<lparr>co_label = shown, co_accessToken = accessToken,
                                               co_email = JStr email, co_login = login,
                                               co_name = shown, co_request = oauthReqInfo,
                                               co_scope = scope, co_userId = JStr email\<rparr>
                                        in case completeAuthorization w opts of
                                             Inl f \<Rightarrow>
                                               (Inl f, [UserinfoFetch (http_trim authorization),
                                                        CompleteAuthorization opts])
                                           | Inr redirectTo \<Rightarrow>
                                               (Inr (Response_redirect redirectTo),
                                                [UserinfoFetch (http_trim authorization),
                                                 CompleteAuthorization opts]))
                                   | _ \<Rightarrow>
                                       (Inl TypeError, [UserinfoFetch (http_trim authorization)])))
                        | Inr _ \<Rightarrow> (Inl TypeError, [UserinfoFetch (http_trim authorization)])))))"

definition callback ::
  "(jsnum \<Rightarrow> jsstring) \<Rightarrow> world \<Rightarrow> env \<Rightarrow> request \<Rightarrow> (jsfault + response) \<times> effect list" where
  "callback nts w e req =
     (case atob (case query_state req of None \<Rightarrow> js ''undefined'' | Some s \<Rightarrow> s) of
        Inl f \<Rightarrow> (Inl f, [])
      | Inr text \<Rightarrow>
          (case JSON_parse text of
             Inl f \<Rightarrow> (Inl f, [])
           | Inr oauthReqInfo \<Rightarrow>
               (case js_get oauthReqInfo (js ''clientId'') of
                  Inl f \<Rightarrow> (Inl f, [])
                | Inr clientId \<Rightarrow>
                    if \<not> truthy clientId then (Inr (c_text (js ''Invalid state'') 400), [])
                    else
                      (case fetchGoogleAccessToken w (GOOGLE_CLIENT_ID e) (GOOGLE_CLIENT_SECRET e)
                              (query_code req) (url_origin req @ js ''/callback'') of
                         (Inl f, effs) \<Rightarrow> (Inl f, effs)
                       | (Inr (Inr errResponse), effs) \<Rightarrow> (Inr errResponse, effs)
                       | (Inr (Inl accessToken), effs) \<Rightarrow>
                           (case callback_identity nts w oauthReqInfo accessToken of
                              (r, effs') \<Rightarrow> (r, effs @ effs'))))))"

section \<open>Properties\<close>

subsection \<open>Strings and the access policy\<close>

lemma jc_inject: "jc a = jc b \<longleftrightarrow> a = b"
proof
  assume h: "jc a = jc b"
  have la: "(of_char a :: nat) < 2 ^ 16"
    by (rule less_trans [of _ 256]) simp_all
  have lb: "(of_char b :: nat) < 2 ^ 16"
    by (rule less_trans [of _ 256]) simp_all
  have "unat (jc a) = unat (jc b)"
    using h by simp
  then have "(of_char a :: nat) = of_char b"
    using la lb by (simp add: jc_def unat_of_nat take_bit_nat_eq_self)
  then show "a = b"
    by simp
qed simp

lemma js_inject: "js s = js t \<longleftrightarrow> s = t"
  unfolding js_def by (simp add: inj_on_def jc_inject)

lemma js_append: "js (s @ t) = js s @ js t"
  by (simp add: js_def)

lemma Set_size_zero: "Set_size xs = 0 \<longleftrightarrow> xs = []"
  by (simp add: Set_size_def)

text \<open>
  C7.  The access check lets every login through when the allow-list is empty, and otherwise
  exactly the logins that are members of the list, compared code unit by code unit: with the
  allow-list \<open>{alice}\<close>, \<open>alice\<close> is allowed while \<open>Alice\<close> and \<open>alice2\<close> are not.  With the
  list configured in the source, exactly the two names written there are allowed.
\<close>

theorem checkUserIsAllowed_exact:
  "checkUserIsAllowedWith [] login
   \<and> checkUserIsAllowedWith allowed login = (allowed = [] \<or> login \<in> set allowed)
   \<and> checkUserIsAllowedWith [js ''alice''] (js ''alice'')
   \<and> \<not> checkUserIsAllowedWith [js ''alice''] (js ''Alice'')
   \<and> \<not> checkUserIsAllowedWith [js ''alice''] (js ''alice2'')
   \<and> checkUserIsAllowed login = (login = js ''leonnwankwo'' \<or> login = js ''leonchike'')"
  by (auto simp: checkUserIsAllowed_def checkUserIsAllowedWith_def Set_size_zero Set_has_def
      ALLOWED_USERNAMES_def js_inject)

subsection \<open>Signing utility\<close>

lemma length_sha256: "length (sha256 m) = 32"
  by (simp add: sha256_def bytes_of_word32_def split: prod.splits)

lemma below_16_cases: "d < 16 \<Longrightarrow> d \<in> {0,1,2,3,4,5,6,7,8,9,10,11,12,13,14,15::nat}"
proof -
  assume "d < 16"
  then have "d < Suc (Suc (Suc (Suc (Suc (Suc (Suc (Suc (Suc (Suc (Suc (Suc (Suc (Suc (Suc (Suc 0)))))))))))))))"
    by simp
  then show ?thesis
    unfolding less_Suc_eq by (elim disjE) simp_all
qed

lemma hex_digit_value: "d < 16 \<Longrightarrow> digit_value16 (hex_digit d) = Some d"
  by (drule below_16_cases) (elim insertE emptyE; simp add: digit_value16_def hex_digit_def)

lemma hex_digit_not_LineTerminator: "d < 16 \<Longrightarrow> \<not> is_LineTerminator (hex_digit d)"
  by (drule below_16_cases) (elim insertE emptyE; simp add: is_LineTerminator_def hex_digit_def)

lemma hex_digit_not_space: "d < 16 \<Longrightarrow> \<not> is_StrWhiteSpaceChar (hex_digit d)"
  by (drule below_16_cases)
     (elim insertE emptyE;
      simp add: is_StrWhiteSpaceChar_def is_WhiteSpace_def is_LineTerminator_def hex_digit_def)

lemma hex_digit_not_sign: "d < 16 \<Longrightarrow> hex_digit d \<noteq> 0x2D \<and> hex_digit d \<noteq> 0x2B"
  by (drule below_16_cases) (elim insertE emptyE; simp add: hex_digit_def)

lemma hex_digit_not_x: "d < 16 \<Longrightarrow> hex_digit d \<noteq> 0x78 \<and> hex_digit d \<noteq> 0x58"
  by (drule below_16_cases) (elim insertE emptyE; simp add: hex_digit_def)

lemma unat_byte_less: "unat (b :: byte) < 256"
  using unsigned_less [of b, where ?'a = nat] by simp

lemma hex_of_byte_digits:
  "hex_of_byte b = [hex_digit (unat b div 16), hex_digit (unat b mod 16)]"
proof (cases "unat b < 16")
  case True
  then show ?thesis
    by (simp add: hex_of_byte_def padStart_def toString16.simps [of "unat b"] hex_digit_def)
next
  case False
  moreover from unat_byte_less [of b] have "unat b div 16 < 16" by arith
  ultimately show ?thesis
    by (simp add: hex_of_byte_def padStart_def toString16.simps [of "unat b"]
        toString16.simps [of "unat b div 16"])
qed

lemma parseInt16_hex_of_byte: "parseInt16 (hex_of_byte b) = Some (uint b)"
proof -
  from unat_byte_less [of b]
  have hi: "unat b div 16 < 16" and lo: "unat b mod 16 < 16" by arith+
  have "int (16 * (unat b div 16) + unat b mod 16) = int (unat b)"
    by simp
  then have e: "16 * int (unat b div 16) + int (unat b mod 16) = uint b"
    by (simp only: of_nat_add of_nat_mult of_nat_numeral) simp
  show ?thesis
    using hex_digit_value [OF hi] hex_digit_value [OF lo] hex_digit_not_space [OF hi]
      hex_digit_not_sign [OF hi] hex_digit_not_x [OF lo] e
    by (simp add: hex_of_byte_digits parseInt16_def strip_sign_def strip_0x_def
        List.map_filter_def)
qed

lemma ToUint8_parse_hex: "ToUint8 (parseInt16 (hex_of_byte b)) = b"
  by (simp add: parseInt16_hex_of_byte ToUint8_def)

lemma parse_hex_pieces: "map (\<lambda>byte. ToUint8 (parseInt16 byte)) (map hex_of_byte bs) = bs"
  by (induction bs) (simp_all add: ToUint8_parse_hex del: map_map)

lemma match_chunks_hex:
  "match_chunks (concat (map hex_of_byte bs) @ rest) = map hex_of_byte bs @ match_chunks rest"
proof (induction bs)
  case Nil
  then show ?case by simp
next
  case (Cons b bs)
  from unat_byte_less [of b]
  have hi: "unat b div 16 < 16" and lo: "unat b mod 16 < 16" by arith+
  show ?case
    using Cons hex_digit_not_LineTerminator [OF hi] hex_digit_not_LineTerminator [OF lo]
    by (simp add: hex_of_byte_digits)
qed

lemma match_chunks_empty_iff: "match_chunks s = [] \<longleftrightarrow> list_all is_LineTerminator s"
  by (induction s rule: match_chunks.induct) auto

lemma hmac_length: "length (subtle_sign_HMAC key bs) = 32"
  by (cases key) (simp add: subtle_sign_HMAC_def hmac_sha256_def Let_def length_sha256)

lemma hmac_nonempty: "subtle_sign_HMAC key bs \<noteq> []"
  using hmac_length [of key bs] by auto

lemma verify_of_hex:
  assumes "bs \<noteq> []" and "match_chunks rest = []"
  shows "verifySignature key (concat (map hex_of_byte bs) @ rest) data
         = Inr (subtle_sign_HMAC key (TextEncoder_encode data) = bs)"
proof -
  from assms obtain b bs' where bs: "bs = b # bs'" by (cases bs) auto
  have "match_chunks (concat (map hex_of_byte bs) @ rest) = map hex_of_byte bs"
    using assms(2) by (simp add: match_chunks_hex)
  then have "match_dot_1_2 (concat (map hex_of_byte bs) @ rest) = Some (map hex_of_byte bs)"
    by (simp add: match_dot_1_2_def bs)
  then show ?thesis
    by (simp add: verifySignature_def parse_hex_pieces subtle_verify_HMAC_def del: map_map)
qed

lemma verify_signData:
  "verifySignature key2 (signData key1 data) data
   = Inr (subtle_sign_HMAC key2 (TextEncoder_encode data)
          = subtle_sign_HMAC key1 (TextEncoder_encode data))"
  using verify_of_hex [OF hmac_nonempty, of "[]" key2 key1 "TextEncoder_encode data" data]
  by (simp add: signData_def)

lemma verifySignature_fault_iff:
  "verifySignature key signatureHex data = Inl e
   \<longleftrightarrow> e = TypeError \<and> list_all is_LineTerminator signatureHex"
  using match_chunks_empty_iff [of signatureHex]
  by (auto simp: verifySignature_def match_dot_1_2_def split: list.splits)

lemma utf8_of_code_point_nonempty: "utf8_of_code_point cp \<noteq> []"
  by (simp add: utf8_of_code_point_def)

lemma code_points_nonempty: "s \<noteq> [] \<Longrightarrow> code_points s \<noteq> []"
  by (induction s rule: code_points.induct) auto

lemma TextEncoder_encode_nonempty: "s \<noteq> [] \<Longrightarrow> TextEncoder_encode s \<noteq> []"
  using code_points_nonempty [of s]
  by (cases "code_points s") (auto simp: TextEncoder_encode_def utf8_of_code_point_nonempty)

lemma getSigningKey_nonempty:
  "s \<noteq> [] \<Longrightarrow> getSigningKey s = Inr (HmacSha256Key (TextEncoder_encode s))"
  by (simp add: getSigningKey_def subtle_importKey_raw_HMAC_def TextEncoder_encode_nonempty)

lemma getSigningKey_empty: "getSigningKey [] = Inl DataError"
  by (simp add: getSigningKey_def subtle_importKey_raw_HMAC_def TextEncoder_encode_def)

subsection \<open>Signatures under two secrets, and malformed signatures\<close>

lemma enc_k: "TextEncoder_encode (js ''k'') = [0x6B]"
  by (simp add: TextEncoder_encode_def js_def jc_def scalar_of_unit_def is_high_surrogate_def
      is_low_surrogate_def utf8_of_code_point_def)

lemma enc_k0: "TextEncoder_encode (js ''k'' @ [0]) = [0x6B, 0]"
  by (simp add: TextEncoder_encode_def js_def jc_def scalar_of_unit_def is_high_surrogate_def
      is_low_surrogate_def utf8_of_code_point_def)

lemma hmac_key_block_zero: "length k < 64 \<Longrightarrow> hmac_key_block (k @ [0]) = hmac_key_block k"
proof -
  assume h: "length k < 64"
  then have "64 - length k = Suc (63 - length k)"
    by arith
  then have "replicate (64 - length k) (0::byte) = 0 # replicate (63 - length k) 0"
    by (simp only: replicate_Suc)
  with h show ?thesis
    by (simp add: hmac_key_block_def Let_def)
qed

lemma hmac_trailing_zero:
  "length k < 64 \<Longrightarrow> hmac_sha256 (k @ [0]) text = hmac_sha256 k text"
  by (simp add: hmac_sha256_def hmac_key_block_zero)

text \<open>
  C2 (as amended).  For every non-empty secret and every message, the signature made under
  the secret verifies under it.  Under a second non-empty secret the same signature verifies
  exactly when the two secrets give the same HMAC of the message; no fault is raised.
\<close>

theorem sign_verify_hmac:
  assumes "s1 \<noteq> []" and "s2 \<noteq> []"
  shows "sign_under_secret s1 m = Inr (signData (HmacSha256Key (TextEncoder_encode s1)) m)
    \<and> verify_under_secret s1 (signData (HmacSha256Key (TextEncoder_encode s1)) m) m = Inr True
    \<and> verify_under_secret s2 (signData (HmacSha256Key (TextEncoder_encode s1)) m) m
        = Inr (hmac_sha256 (TextEncoder_encode s2) (TextEncoder_encode m)
               = hmac_sha256 (TextEncoder_encode s1) (TextEncoder_encode m))"
  using assms
  by (simp add: sign_under_secret_def verify_under_secret_def getSigningKey_nonempty
      verify_signData subtle_sign_HMAC_def)

text \<open>The theorem at the secret \<open>k\<close> and the message \<open>true\<close>.\<close>

theorem sign_verify_hmac_witness:
  "sign_under_secret (js ''k'') (js ''true'')
     = Inr (signData (HmacSha256Key (TextEncoder_encode (js ''k''))) (js ''true''))
   \<and> verify_under_secret (js ''k'')
       (signData (HmacSha256Key (TextEncoder_encode (js ''k''))) (js ''true'')) (js ''true'')
     = Inr True"
  using sign_verify_hmac [of "js ''k''" "js ''k''" "js ''true''"]
  by (simp add: js_def)

text \<open>
  C2 as stated fails: the secret \<open>k\<close> followed by the code unit 0 differs from \<open>k\<close>, but HMAC
  pads a short key with zero bytes, so both give the same key block and the signature made
  under \<open>k\<close> verifies under the other secret.
\<close>

theorem distinct_secrets_verify_counterexample:
  "js ''k'' @ [0] \<noteq> js ''k''
   \<and> sign_under_secret (js ''k'') (js ''true'')
       = Inr (signData (HmacSha256Key [0x6B]) (js ''true''))
   \<and> verify_under_secret (js ''k'' @ [0]) (signData (HmacSha256Key [0x6B]) (js ''true''))
         (js ''true'')
       = Inr True"
proof -
  have k: "getSigningKey (js ''k'') = Inr (HmacSha256Key [0x6B])"
    by (simp add: getSigningKey_def subtle_importKey_raw_HMAC_def enc_k)
  have k0: "getSigningKey (js ''k'' @ [0]) = Inr (HmacSha256Key [0x6B, 0])"
    by (simp add: getSigningKey_def subtle_importKey_raw_HMAC_def enc_k0)
  have "hmac_sha256 ([0x6B] @ [0]) (TextEncoder_encode (js ''true''))
        = hmac_sha256 [0x6B] (TextEncoder_encode (js ''true''))"
    by (rule hmac_trailing_zero) simp
  then show ?thesis
    by (simp add: sign_under_secret_def verify_under_secret_def k k0 verify_signData
        subtle_sign_HMAC_def)
qed

text \<open>
  C3.  The code at signatures that are not well-formed hex: a single line feed and the empty
  string raise a \<open>TypeError\<close> (\<open>match\<close> returns \<open>null\<close>), and a valid signature followed by a line
  feed is accepted, because the regular expression skips line terminators.
\<close>

theorem verifySignature_malformed_hex:
  "verifySignature key [0x0A] data = Inl TypeError
   \<and> verifySignature key [] data = Inl TypeError
   \<and> verifySignature key (signData key data @ [0x0A]) data = Inr True"
proof -
  have "verifySignature key (signData key data @ [0x0A]) data = Inr True"
    using verify_of_hex [OF hmac_nonempty, of "[0x0A]" key key "TextEncoder_encode data" data]
    by (simp add: signData_def is_LineTerminator_def)
  then show ?thesis
    by (simp add: verifySignature_def match_dot_1_2_def is_LineTerminator_def)
qed

subsection \<open>Approval memoizer\<close>

lemma truthy_string_Some: "truthy_string v \<longleftrightarrow> (\<exists>s. v = Some s \<and> s \<noteq> [])"
  by (cases v) (simp_all add: truthy_string_def)

lemma clientIdAlreadyApproved_no_header:
  "clientIdAlreadyApproved None clientId secret = Inr False
   \<and> clientIdAlreadyApproved (Some []) clientId secret = Inr False"
  by (simp add: clientIdAlreadyApproved_def truthy_string_def)

lemma verifySignature_True_nonempty:
  "verifySignature key s data = Inr True \<Longrightarrow> s \<noteq> []"
  by (auto simp: verifySignature_def match_dot_1_2_def)

lemma clientIdAlreadyApproved_true_iff:
  "clientIdAlreadyApproved cookieHeader clientId secret = Inr True
   \<longleftrightarrow> (\<exists>h cookies key s.
          cookieHeader = Some h \<and> parseCookieHeader h = Inr cookies
        \<and> cookies (approved_cookie_name clientId) = Some (js ''true'')
        \<and> cookies (signature_cookie_name clientId) = Some s
        \<and> getSigningKey secret = Inr key
        \<and> verifySignature key s (js ''true'') = Inr True)"
  (is "?L \<longleftrightarrow> ?R")
proof
  assume ?L
  then show ?R
    by (auto simp: clientIdAlreadyApproved_def truthy_string_Some Let_def
        split: if_splits sum.splits)
next
  assume ?R
  then obtain h cookies key s where
    h: "cookieHeader = Some h" "parseCookieHeader h = Inr cookies"
       "cookies (approved_cookie_name clientId) = Some (js ''true'')"
       "cookies (signature_cookie_name clientId) = Some s"
       "getSigningKey secret = Inr key"
       "verifySignature key s (js ''true'') = Inr True"
    by blast
  have "h \<noteq> []"
    using h(2,3) by (auto simp: parseCookieHeader_def parseCookie_step_def Let_def trim_def truthy_string_def)
  moreover have "s \<noteq> []"
    using h(6) by (rule verifySignature_True_nonempty)
  moreover have "js ''true'' \<noteq> []"
    by (simp add: js_def)
  ultimately show ?L
    using h by (simp add: clientIdAlreadyApproved_def truthy_string_def)
qed

lemma verifySignature_value:
  "\<not> list_all is_LineTerminator s \<Longrightarrow>
   verifySignature key s d
   = Inr (subtle_verify_HMAC key (map (\<lambda>byte. ToUint8 (parseInt16 byte)) (match_chunks s))
            (TextEncoder_encode d))"
  using match_chunks_empty_iff [of s]
  by (simp add: verifySignature_def match_dot_1_2_def split: list.splits)

lemma clientIdAlreadyApproved_false_cases:
  assumes "parseCookieHeader h = Inr cookies" and "secret \<noteq> []"
    and "cookies (approved_cookie_name clientId) = None
         \<or> cookies (signature_cookie_name clientId) = None
         \<or> (\<exists>a s. cookies (approved_cookie_name clientId) = Some a
                \<and> cookies (signature_cookie_name clientId) = Some s
                \<and> \<not> list_all is_LineTerminator s
                \<and> (a \<noteq> js ''true''
                    \<or> verifySignature (HmacSha256Key (TextEncoder_encode secret)) s (js ''true'')
                       = Inr False))"
  shows "clientIdAlreadyApproved (Some h) clientId secret = Inr False"
  using assms
  by (auto simp: clientIdAlreadyApproved_def truthy_string_def getSigningKey_nonempty Let_def
      verifySignature_value split: option.splits)

text \<open>
  C1.  The approval check at two cookie headers where it raises instead of returning false:
  a signature cookie that decodes to a single line feed (the flag cookie is present and the
  signature does not verify), and a header whose only cookie has a stray percent sign (both
  approval cookies are absent).
\<close>

theorem clientIdAlreadyApproved_faults:
  "clientIdAlreadyApproved (Some (js ''client_c_approved=true; client_c_signature=%0A''))
     (js ''c'') (js ''k'') = Inl TypeError
   \<and> clientIdAlreadyApproved (Some (js ''discount=10%'')) (js ''c'') (js ''k'') = Inl URIError"
  by code_simp

text \<open>At the first of the two headers the check does not answer false.\<close>

theorem clientIdAlreadyApproved_faults_witness:
  "clientIdAlreadyApproved (Some (js ''client_c_approved=true; client_c_signature=%0A''))
     (js ''c'') (js ''k'') \<noteq> Inr False"
  using clientIdAlreadyApproved_faults by simp

end
